theory Spec2Isabelle
  imports Complex_Main "HOL-Library.AList"
begin

text \<open>
  A model of the attendance ingestion of the repository: the batch-info parser, the row
  loop of \<^verbatim>\<open>processDivisionSheet\<close> with its upsert and its allocation maps, the
  reconciliation of the allocations, the defaulter report and check, the upload handler's
  treatment of the uploaded file and the guard of the periodic allocation sync. The
  sources are \<^verbatim>\<open>routes/attendance.js\<close>, \<^verbatim>\<open>models/Attendance.js\<close> and
  \<^verbatim>\<open>workers/allocationSyncWorker.js\<close>; line numbers refer to the first of them
  unless the worker is named.
\<close>

section \<open>Strings and numbers of the host language\<close>

text \<open>
  Strings are byte lists. The character classes are those of the regular expressions
  in \<^verbatim>\<open>routes/attendance.js\<close>, restricted to ASCII: \<^verbatim>\<open>\s\<close> is the six
  ASCII white-space characters, \<^verbatim>\<open>\d\<close> the ten decimal digits.
\<close>

definition is_space :: "char \<Rightarrow> bool" where
  "is_space c = (c \<in> set [CHR '' '', CHR 0x09, CHR 0x0A, CHR 0x0B, CHR 0x0C, CHR 0x0D])"

definition is_digit :: "char \<Rightarrow> bool" where
  "is_digit c = (c \<in> set ''0123456789'')"

definition toUpperChar :: "char \<Rightarrow> char" where
  "toUpperChar c =
     (case map_of (zip ''abcdefghijklmnopqrstuvwxyz'' ''ABCDEFGHIJKLMNOPQRSTUVWXYZ'') c of
        Some u \<Rightarrow> u
      | None \<Rightarrow> c)"

definition toUpperCase :: "string \<Rightarrow> string" where
  "toUpperCase s = map toUpperChar s"

definition digit_val :: "char \<Rightarrow> nat" where
  "digit_val c =
     (case map_of (zip ''0123456789'' [0, 1, 2, 3, 4, 5, 6, 7, 8, 9]) c of
        Some d \<Rightarrow> d
      | None \<Rightarrow> 0)"

text \<open>\<^verbatim>\<open>parseInt(ds, 10)\<close> on a run of digits.\<close>

definition parseInt10 :: "string \<Rightarrow> nat" where
  "parseInt10 ds = foldl (\<lambda>n c. 10 * n + digit_val c) 0 ds"

text \<open>\<^verbatim>\<open>String.prototype.trim\<close>.\<close>

definition trim :: "string \<Rightarrow> string" where
  "trim s = rev (dropWhile is_space (rev (dropWhile is_space s)))"

section \<open>Batch-info parser\<close>

text \<open>\<^verbatim>\<open>.replace(/\s+/g, ' ')\<close>: every maximal run of white space becomes one blank.\<close>

function replace_ws :: "string \<Rightarrow> string" where
  "replace_ws [] = []"
| "replace_ws (c # cs) =
     (if is_space c then CHR '' '' # replace_ws (dropWhile is_space cs)
      else c # replace_ws cs)"
  by pat_completeness auto
termination
  by (relation "measure length") (auto simp: length_dropWhile_le less_Suc_eq_le)

text \<open>
  \<^verbatim>\<open>.replace(/\s*,\s*/g, ' ')\<close>: scanning from the left, a comma together with the
  white space around it becomes one blank; the search goes on behind the match.
\<close>

function replace_commas :: "string \<Rightarrow> string" where
  "replace_commas [] = []"
| "replace_commas (c # cs) =
     (case dropWhile is_space (c # cs) of
        [] \<Rightarrow> c # replace_commas cs
      | x # rest \<Rightarrow>
          if x = CHR '','' then CHR '' '' # replace_commas (dropWhile is_space rest)
          else c # replace_commas cs)"
  by pat_completeness auto
termination
  apply (relation "measure length")
    apply (auto simp: less_Suc_eq_le)
  subgoal for c cs rest
    using length_dropWhile_le[of is_space "c # cs"] length_dropWhile_le[of is_space rest]
    by simp
  done

definition normalizeBatchText :: "string \<Rightarrow> string" where
  "normalizeBatchText str = trim (replace_commas (replace_ws str))"

text \<open>
  The pattern \<^verbatim>\<open>/([A-D])\s*[=:]\s*(\d+)/gi\<close>. The flag \<^verbatim>\<open>i\<close> admits the lower-case
  letters as well.
\<close>

definition is_batch_letter :: "char \<Rightarrow> bool" where
  "is_batch_letter c = (c \<in> set ''ABCDabcd'')"

definition is_sep :: "char \<Rightarrow> bool" where
  "is_sep c = (c = CHR ''='' \<or> c = CHR '':'')"

text \<open>
  One attempt of the pattern at the head of the text. A match gives the letter, the
  digits and the text behind the match (where \<^verbatim>\<open>lastIndex\<close> points afterwards).
  The three character classes are disjoint, so the greedy quantifiers never backtrack.
\<close>

definition batchPattern_at :: "string \<Rightarrow> (char \<times> string \<times> string) option" where
  "batchPattern_at s =
     (case s of
        [] \<Rightarrow> None
      | l # r0 \<Rightarrow>
          if \<not> is_batch_letter l then None
          else (case dropWhile is_space r0 of
                  [] \<Rightarrow> None
                | sep # r1 \<Rightarrow>
                    if \<not> is_sep sep then None
                    else let r2 = dropWhile is_space r1 in
                         if takeWhile is_digit r2 = [] then None
                         else Some (l, takeWhile is_digit r2, dropWhile is_digit r2)))"

lemma batchPattern_at_SomeE:
  assumes "batchPattern_at s = Some (l, ds, rest)"
  obtains r0 sep r1 where "s = l # r0" and "is_batch_letter l"
    and "dropWhile is_space r0 = sep # r1" and "is_sep sep"
    and "ds = takeWhile is_digit (dropWhile is_space r1)"
    and "takeWhile is_digit (dropWhile is_space r1) \<noteq> []"
    and "rest = dropWhile is_digit (dropWhile is_space r1)"
proof (cases s)
  case Nil
  with assms show ?thesis by (simp add: batchPattern_at_def)
next
  case (Cons l' r0)
  note s = this
  show ?thesis
  proof (cases "dropWhile is_space r0")
    case Nil
    with assms s show ?thesis
      by (simp add: batchPattern_at_def split: if_splits del: dropWhile_eq_Nil_conv)
  next
    case (Cons sep r1)
    with assms s have "l' = l \<and> is_batch_letter l \<and> is_sep sep
        \<and> ds = takeWhile is_digit (dropWhile is_space r1)
        \<and> takeWhile is_digit (dropWhile is_space r1) \<noteq> []
        \<and> rest = dropWhile is_digit (dropWhile is_space r1)"
      by (simp add: batchPattern_at_def Let_def split: if_splits)
    with s Cons show ?thesis
      by (intro that[of r0 sep r1]) simp_all
  qed
qed

lemma batchPattern_at_shorter:
  assumes m: "batchPattern_at s = Some (l, ds, rest)"
  shows "length rest < length s"
proof -
  from m obtain r0 sep r1 where s: "s = l # r0"
    and r1: "dropWhile is_space r0 = sep # r1"
    and rest: "rest = dropWhile is_digit (dropWhile is_space r1)"
    by (rule batchPattern_at_SomeE)
  have "length rest \<le> length r1"
    unfolding rest
    by (rule order_trans[OF length_dropWhile_le length_dropWhile_le])
  moreover have "length (sep # r1) \<le> length r0"
    using length_dropWhile_le[of is_space r0] r1 by simp
  ultimately show ?thesis using s by simp
qed

text \<open>
  The \<^verbatim>\<open>while ((match = batchPattern.exec(normalized)) !== null)\<close> loop. The object
  \<^verbatim>\<open>batchInfo\<close> is an association list in insertion order; an assignment to a key
  already present replaces its value in place. The guard
  \<^verbatim>\<open>batch && !isNaN(value) && value >= 0\<close> holds at every match.
\<close>

function exec_loop :: "string \<Rightarrow> (string \<times> nat) list \<Rightarrow> (string \<times> nat) list" where
  "exec_loop [] batchInfo = batchInfo"
| "exec_loop (c # cs) batchInfo =
     (case batchPattern_at (c # cs) of
        None \<Rightarrow> exec_loop cs batchInfo
      | Some (l, ds, rest) \<Rightarrow>
          exec_loop rest (AList.update [toUpperChar l] (parseInt10 ds) batchInfo))"
  by pat_completeness auto
termination
  by (relation "measure (\<lambda>(s, b). length s)") (auto dest: batchPattern_at_shorter)

definition parseBatchInfo :: "string \<Rightarrow> (string \<times> nat) list" where
  "parseBatchInfo str = (if str = [] then [] else exec_loop (normalizeBatchText str) [])"

text \<open>
  What it means for a text to contain the pattern, stated without the scanner: a batch
  letter, white space, a separator, white space and a digit, somewhere in the text.
\<close>

definition matches_batchPattern :: "string \<Rightarrow> bool" where
  "matches_batchPattern s \<longleftrightarrow>
     (\<exists>pre l ws1 sep ws2 d rest.
        s = pre @ [l] @ ws1 @ [sep] @ ws2 @ [d] @ rest \<and>
        is_batch_letter l \<and> list_all is_space ws1 \<and> is_sep sep \<and>
        list_all is_space ws2 \<and> is_digit d)"

section \<open>Numbers read from sheet cells\<close>

text \<open>
  A JavaScript number read from a cell is either \<^verbatim>\<open>NaN\<close> or a finite value. Finite
  doubles are idealised as exact rationals: there is no rounding error and no overflow.
  The literal \<^verbatim>\<open>Infinity\<close>, which \<^verbatim>\<open>parseFloat\<close> also accepts, is outside this model;
  attendance counts and percentages are decimal numerals.
\<close>

datatype jsnum = NaN | Fin rat

definition sign_prefix :: "string \<Rightarrow> bool \<times> string" where
  "sign_prefix s =
     (case s of
        [] \<Rightarrow> (False, [])
      | c # r \<Rightarrow>
          if c = CHR ''-'' then (True, r)
          else if c = CHR ''+'' then (False, r)
          else (False, s))"

text \<open>The optional exponent part \<^verbatim>\<open>e[+-]?\d+\<close> behind the mantissa; 0 when there is none.\<close>

definition exponent_part :: "string \<Rightarrow> int" where
  "exponent_part s =
     (case s of
        [] \<Rightarrow> 0
      | c # r \<Rightarrow>
          if c = CHR ''e'' \<or> c = CHR ''E'' then
            (let (eneg, r') = sign_prefix r; ds = takeWhile is_digit r' in
             if ds = [] then 0
             else if eneg then - int (parseInt10 ds) else int (parseInt10 ds))
          else 0)"

text \<open>
  \<^verbatim>\<open>parseFloat\<close>: leading white space is skipped, then the longest prefix that is a
  decimal literal (sign, digits, fraction, exponent) is read; \<^verbatim>\<open>NaN\<close> when there is
  no digit.
\<close>

definition parseFloat :: "string \<Rightarrow> jsnum" where
  "parseFloat s =
     (let (neg, s2) = sign_prefix (dropWhile is_space s);
          ip = takeWhile is_digit s2;
          r1 = dropWhile is_digit s2;
          (fp, r2) = (case r1 of
                        [] \<Rightarrow> ([], [])
                      | c # r \<Rightarrow>
                          if c = CHR ''.'' then (takeWhile is_digit r, dropWhile is_digit r)
                          else ([], r1))
      in if ip = [] \<and> fp = [] then NaN
         else let m = of_nat (parseInt10 ip) + of_nat (parseInt10 fp) / 10 ^ length fp;
                  e = exponent_part r2;
                  v = (if 0 \<le> e then m * 10 ^ nat e else m / 10 ^ nat (- e))
              in Fin (if neg then - v else v))"

text \<open>
  \<^verbatim>\<open>parseFloat(row[col] || 0)\<close>: a cell beyond the end of the row is
  \<^verbatim>\<open>undefined\<close> and an empty cell is the empty string; both are falsy and are read
  as the number 0.
\<close>

definition cell_at :: "string list \<Rightarrow> nat \<Rightarrow> string" where
  "cell_at row col = (if col < length row then row ! col else [])"

definition cellNumber :: "string list \<Rightarrow> nat \<Rightarrow> jsnum" where
  "cellNumber row col = (if cell_at row col = [] then Fin 0 else parseFloat (cell_at row col))"

text \<open>\<^verbatim>\<open>x > 0\<close> on a number that may be \<^verbatim>\<open>NaN\<close>.\<close>

definition positive :: "jsnum \<Rightarrow> bool" where
  "positive x = (case x of NaN \<Rightarrow> False | Fin q \<Rightarrow> 0 < q)"

definition fin_val :: "jsnum \<Rightarrow> rat" where
  "fin_val x = (case x of NaN \<Rightarrow> 0 | Fin q \<Rightarrow> q)"

section \<open>Documents and the state of one upload\<close>

type_synonym oid = nat

datatype kind = Theory | Practical

text \<open>
  The \<^verbatim>\<open>period\<close> field of a stored summary: missing from the document, \<^verbatim>\<open>null\<close>,
  or a label such as \<^verbatim>\<open>Aug-25 to Oct-25\<close>.
\<close>

datatype period_field = Absent | Null | Period string

text \<open>
  A document of the \<^verbatim>\<open>Attendance\<close> collection (\<^verbatim>\<open>models/Attendance.js\<close>). The
  creation stamps and \<^verbatim>\<open>updatedAt\<close> hold wall-clock time and are left out.
\<close>

record attendance_doc =
  att_studentId :: oid
  att_subjectId :: oid
  att_type :: kind
  att_totalConducted :: rat
  att_totalAttended :: rat
  att_percentage :: rat
  att_period :: period_field
  att_division :: "string option"
  att_batch :: "string option"
  att_recordedBy :: oid

text \<open>The fields of a student that \<^verbatim>\<open>processDivisionSheet\<close> selects and reads.\<close>

record student_doc =
  stu_oid :: oid
  stu_studentId :: string
  stu_batch :: "string option"

text \<open>The fields of an allocation that the upload reads or writes.\<close>

record allocation_doc =
  al_subjectId :: oid
  al_type :: kind
  al_division :: string
  al_batch :: "string option"
  al_totalPlanned :: nat
  al_totalConducted :: nat
  al_students :: "oid list"

text \<open>
  An entry of \<^verbatim>\<open>subjectMap\<close>, keyed by the attended column. \<^verbatim>\<open>totalLectures\<close> is
  \<^verbatim>\<open>null\<close> or the integer read from the sheet header; \<^verbatim>\<open>batchInfo\<close> is
  \<^verbatim>\<open>null\<close> or the object built by \<^verbatim>\<open>parseBatchInfo\<close>.
\<close>

record subjectInfo =
  subjectId :: oid
  subjectName :: string
  stype :: kind
  totalLectures :: "nat option"
  batchInfo :: "(string \<times> nat) list option"

text \<open>What stays fixed during the row loop of one upload.\<close>

record upload_ctx =
  division :: string
  teacherId :: oid
  period :: "string option"
  uidCol :: nat
  students :: "student_doc list"

text \<open>
  The key \<^verbatim>\<open>`${subjectId}_${type}_${division}_${batchKey}`\<close> of the two accumulation
  maps, kept as a tuple.
\<close>

type_synonym alloc_key = "oid \<times> kind \<times> string \<times> string"

record allocation_update =
  au_subjectId :: oid
  au_type :: kind
  au_division :: string
  au_batch :: "string option"
  au_totalPlanned :: nat
  au_totalConducted :: nat

record allocation_students =
  as_subjectId :: oid
  as_type :: kind
  as_division :: string
  as_batch :: "string option"
  as_students :: "oid list"

record row_error =
  er_row :: nat
  er_studentId :: string
  er_error :: string

record upload_state =
  attendance :: "attendance_doc list"
  allocationUpdates :: "(alloc_key \<times> allocation_update) list"
  allocationStudents :: "(alloc_key \<times> allocation_students) list"
  recordsCreated :: nat
  studentsFound :: nat
  studentsNotFound :: nat
  errors :: "row_error list"

text \<open>
  The entry of \<^verbatim>\<open>subjectMap\<close> for a Practical subject found in the sheet (lines
  658--673 and 955--961): its own total is the one the header declares for the letter of
  the uploaded division, or \<^verbatim>\<open>null\<close> when there is none or it is 0.
\<close>

definition practicalEntry :: "oid \<Rightarrow> string \<Rightarrow> string \<Rightarrow> (string \<times> nat) list \<Rightarrow> subjectInfo" where
  "practicalEntry sid name dv bi =
     \<lparr> subjectId = sid, subjectName = name, stype = Practical,
       totalLectures = (case map_of bi dv of
                          None \<Rightarrow> None
                        | Some v \<Rightarrow> if v = 0 then None else Some v),
       batchInfo = Some bi \<rparr>"

section \<open>The attendance upserter\<close>

text \<open>
  \<^verbatim>\<open>subjectInfo.batchInfo && subjectInfo.batchInfo[student.batch]\<close>: the value when it
  is truthy, that is when the object exists, has the student's batch as a key and the
  value is not 0.
\<close>

definition batchTotal :: "subjectInfo \<Rightarrow> student_doc \<Rightarrow> nat option" where
  "batchTotal info student =
     (case batchInfo info of
        None \<Rightarrow> None
      | Some bi \<Rightarrow>
          (case stu_batch student of
             None \<Rightarrow> None
           | Some b \<Rightarrow>
               (case map_of bi b of
                  None \<Rightarrow> None
                | Some v \<Rightarrow> if v = 0 then None else Some v)))"

text \<open>
  Lines 1040--1044: for a Practical subject the batch-specific total, when there is one,
  is stored into the entry of \<^verbatim>\<open>subjectMap\<close> itself. The entry is shared by all
  rows, so the assignment is still there when the next row is processed.
\<close>

definition useBatchTotal :: "subjectInfo \<Rightarrow> student_doc \<Rightarrow> subjectInfo" where
  "useBatchTotal info student =
     (if stype info = Practical then
        (case batchTotal info student of
           Some v \<Rightarrow> info\<lparr>totalLectures := Some v\<rparr>
         | None \<Rightarrow> info)
      else info)"

text \<open>
  Lines 1063--1070: the total is the one of the entry; when that is \<^verbatim>\<open>null\<close> or 0 it
  is derived from the percentage cell, and from the attended value alone when the
  percentage is not positive.
\<close>

definition derivedTotal :: "subjectInfo \<Rightarrow> rat \<Rightarrow> jsnum \<Rightarrow> rat" where
  "derivedTotal info attendedValue percentageValue =
     (case totalLectures info of
        Some n \<Rightarrow>
          if n \<noteq> 0 then of_nat n
          else if positive percentageValue
               then of_int (round (attendedValue / fin_val percentageValue * 100))
               else of_int (round attendedValue)
      | None \<Rightarrow>
          if positive percentageValue
          then of_int (round (attendedValue / fin_val percentageValue * 100))
          else of_int (round attendedValue))"

text \<open>Lines 1073--1075: the floor. \<^verbatim>\<open>1.2\<close> is the rational 12/10.\<close>

definition totalClasses :: "subjectInfo \<Rightarrow> rat \<Rightarrow> jsnum \<Rightarrow> rat" where
  "totalClasses info attendedValue percentageValue =
     (let t = derivedTotal info attendedValue percentageValue in
      if t = 0 \<or> t < attendedValue
      then of_int (max (round attendedValue) \<lceil>attendedValue * (12 / 10)\<rceil>)
      else t)"

definition finalPercentage :: "subjectInfo \<Rightarrow> rat \<Rightarrow> jsnum \<Rightarrow> rat" where
  "finalPercentage info attendedValue percentageValue =
     (let t = totalClasses info attendedValue percentageValue;
          calculatedPercentage = (if 0 < t then attendedValue / t * 100 else 0)
      in if positive percentageValue then fin_val percentageValue else calculatedPercentage)"

text \<open>
  The query and the \<^verbatim>\<open>$set\<close> of one \<^verbatim>\<open>Attendance.findOneAndUpdate\<close> call (lines
  1093--1133). \<^verbatim>\<open>w_period\<close> is the period of the sheet when it is truthy.
\<close>

record summary_write =
  w_studentId :: oid
  w_subjectId :: oid
  w_type :: kind
  w_period :: "string option"
  w_totalConducted :: rat
  w_totalAttended :: rat
  w_percentage :: rat
  w_division :: string
  w_batch :: "string option"
  w_recordedBy :: oid

definition truthyPeriod :: "string option \<Rightarrow> string option" where
  "truthyPeriod p = (case p of None \<Rightarrow> None | Some s \<Rightarrow> if s = [] then None else Some s)"

definition summaryWrite ::
  "upload_ctx \<Rightarrow> student_doc \<Rightarrow> subjectInfo \<Rightarrow> rat \<Rightarrow> jsnum \<Rightarrow> summary_write" where
  "summaryWrite ctx student info attendedValue percentageValue =
     \<lparr> w_studentId = stu_oid student,
       w_subjectId = subjectId info,
       w_type = stype info,
       w_period = truthyPeriod (period ctx),
       w_totalConducted = of_int (round (totalClasses info attendedValue percentageValue)),
       w_totalAttended = of_int (round attendedValue),
       w_percentage = finalPercentage info attendedValue percentageValue,
       w_division = division ctx,
       w_batch = (if stype info = Practical then stu_batch student else None),
       w_recordedBy = teacherId ctx \<rparr>"

text \<open>
  The filter of the query: student, subject and type are compared; a period of the
  sheet must be equal, and without one the stored period must be \<^verbatim>\<open>null\<close> or
  missing.
\<close>

definition queryMatches :: "summary_write \<Rightarrow> attendance_doc \<Rightarrow> bool" where
  "queryMatches w d \<longleftrightarrow>
     att_studentId d = w_studentId w \<and> att_subjectId d = w_subjectId w \<and>
     att_type d = w_type w \<and>
     (case w_period w of
        Some p \<Rightarrow> att_period d = Period p
      | None \<Rightarrow> att_period d = Null \<or> att_period d = Absent)"

definition periodField :: "string option \<Rightarrow> period_field" where
  "periodField p = (case p of None \<Rightarrow> Null | Some s \<Rightarrow> Period s)"

definition applySet :: "summary_write \<Rightarrow> attendance_doc \<Rightarrow> attendance_doc" where
  "applySet w d =
     d\<lparr> att_totalConducted := w_totalConducted w,
        att_totalAttended := w_totalAttended w,
        att_percentage := w_percentage w,
        att_period := periodField (w_period w),
        att_division := Some (w_division w),
        att_batch := w_batch w,
        att_recordedBy := w_recordedBy w \<rparr>"

text \<open>The document an upsert inserts: the equality fields of the filter and the \<^verbatim>\<open>$set\<close>.\<close>

definition insertedDoc :: "summary_write \<Rightarrow> attendance_doc" where
  "insertedDoc w =
     \<lparr> att_studentId = w_studentId w,
       att_subjectId = w_subjectId w,
       att_type = w_type w,
       att_totalConducted = w_totalConducted w,
       att_totalAttended = w_totalAttended w,
       att_percentage = w_percentage w,
       att_period = periodField (w_period w),
       att_division = Some (w_division w),
       att_batch = w_batch w,
       att_recordedBy = w_recordedBy w \<rparr>"

text \<open>
  \<^verbatim>\<open>findOneAndUpdate(query, {$set: ...}, {upsert: true, new: true})\<close> on the
  collection in its natural order: the first matching document is updated in place;
  when none matches, one document is added.
\<close>

fun findOneAndUpdate_upsert :: "summary_write \<Rightarrow> attendance_doc list \<Rightarrow> attendance_doc list" where
  "findOneAndUpdate_upsert w [] = [insertedDoc w]"
| "findOneAndUpdate_upsert w (d # ds) =
     (if queryMatches w d then applySet w d # ds
      else d # findOneAndUpdate_upsert w ds)"

section \<open>The accumulation maps of the allocation reconciler\<close>

text \<open>Lines 1158--1165.\<close>

definition totalFromSheetHeader :: "subjectInfo \<Rightarrow> student_doc \<Rightarrow> nat option" where
  "totalFromSheetHeader info student =
     (if stype info = Practical \<and> batchTotal info student \<noteq> None then batchTotal info student
      else (case totalLectures info of
              Some n \<Rightarrow> if 0 < n then Some n else None
            | None \<Rightarrow> None))"

definition batchKey :: "subjectInfo \<Rightarrow> student_doc \<Rightarrow> string" where
  "batchKey info student =
     (if stype info = Practical then (case stu_batch student of Some b \<Rightarrow> b | None \<Rightarrow> [])
      else [])"

definition allocationKey :: "upload_ctx \<Rightarrow> subjectInfo \<Rightarrow> student_doc \<Rightarrow> alloc_key" where
  "allocationKey ctx info student =
     (subjectId info, stype info, division ctx, batchKey info student)"

definition add_to_set :: "'a \<Rightarrow> 'a list \<Rightarrow> 'a list" where
  "add_to_set x xs = (if x \<in> set xs then xs else xs @ [x])"

text \<open>Lines 1169--1187: a key is tracked only with a positive total from the header.\<close>

definition trackUpdate ::
  "upload_ctx \<Rightarrow> subjectInfo \<Rightarrow> student_doc \<Rightarrow> (alloc_key \<times> allocation_update) list
     \<Rightarrow> (alloc_key \<times> allocation_update) list" where
  "trackUpdate ctx info student ups =
     (case totalFromSheetHeader info student of
        None \<Rightarrow> ups
      | Some t \<Rightarrow>
          if 0 < t then
            (case map_of ups (allocationKey ctx info student) of
               None \<Rightarrow>
                 AList.update (allocationKey ctx info student)
                   \<lparr> au_subjectId = subjectId info,
                     au_type = stype info,
                     au_division = division ctx,
                     au_batch = (if stype info = Practical then Some (batchKey info student) else None),
                     au_totalPlanned = t,
                     au_totalConducted = t \<rparr> ups
             | Some u \<Rightarrow>
                 AList.update (allocationKey ctx info student)
                   (u\<lparr>au_totalPlanned := t, au_totalConducted := t\<rparr>) ups)
          else ups)"

text \<open>Lines 1192--1201.\<close>

definition trackStudent ::
  "upload_ctx \<Rightarrow> subjectInfo \<Rightarrow> student_doc \<Rightarrow> (alloc_key \<times> allocation_students) list
     \<Rightarrow> (alloc_key \<times> allocation_students) list" where
  "trackStudent ctx info student studs =
     (let entry = (case map_of studs (allocationKey ctx info student) of
                     None \<Rightarrow>
                       \<lparr> as_subjectId = subjectId info,
                         as_type = stype info,
                         as_division = division ctx,
                         as_batch = (if stype info = Practical then Some (batchKey info student) else None),
                         as_students = [] \<rparr>
                   | Some e \<Rightarrow> e)
      in AList.update (allocationKey ctx info student)
           (entry\<lparr>as_students := add_to_set (stu_oid student) (as_students entry)\<rparr>) studs)"

section \<open>The row loop of \<^verbatim>\<open>processDivisionSheet\<close>\<close>

text \<open>
  One turn of the inner loop (lines 1032--1202) for the entry \<^verbatim>\<open>subjectInfo\<close> of the
  attended column \<^verbatim>\<open>col\<close>. The turn is left at once when the attended value is
  \<^verbatim>\<open>NaN\<close> or negative. The \<^verbatim>\<open>Allocation.findOne\<close> of lines 1048--1059 only logs
  and the \<^verbatim>\<open>$addToSet\<close> on the student touches a field nothing here reads; both are
  left out. The entry is returned as the turn leaves it.
\<close>

definition process_subject ::
  "upload_ctx \<Rightarrow> student_doc \<Rightarrow> string list \<Rightarrow> nat \<times> subjectInfo \<Rightarrow> upload_state
     \<Rightarrow> (nat \<times> subjectInfo) \<times> upload_state" where
  "process_subject ctx student row entry st =
     (case cellNumber row (fst entry) of
        NaN \<Rightarrow> (entry, st)
      | Fin attendedValue \<Rightarrow>
          if attendedValue < 0 then (entry, st)
          else
            let info = useBatchTotal (snd entry) student;
                percentageValue = cellNumber row (fst entry + 1);
                w = summaryWrite ctx student info attendedValue percentageValue
            in ((fst entry, info),
                st\<lparr> attendance := findOneAndUpdate_upsert w (attendance st),
                    recordsCreated := recordsCreated st + 1,
                    allocationUpdates := trackUpdate ctx info student (allocationUpdates st),
                    allocationStudents := trackStudent ctx info student (allocationStudents st) \<rparr>))"

text \<open>
  \<^verbatim>\<open>for (const [colIndex, subjectInfo] of Object.entries(subjectMap))\<close>. The keys of
  \<^verbatim>\<open>subjectMap\<close> are column numbers, so the entries come in ascending column order;
  the list holds them in that order.
\<close>

fun process_subjects ::
  "upload_ctx \<Rightarrow> student_doc \<Rightarrow> string list \<Rightarrow> (nat \<times> subjectInfo) list \<Rightarrow> upload_state
     \<Rightarrow> (nat \<times> subjectInfo) list \<times> upload_state" where
  "process_subjects ctx student row [] st = ([], st)"
| "process_subjects ctx student row (entry # entries) st =
     (let (entry', st1) = process_subject ctx student row entry st;
          (entries', st2) = process_subjects ctx student row entries st1
      in (entry' # entries', st2))"

definition studentNotFound :: "upload_ctx \<Rightarrow> nat \<Rightarrow> string \<Rightarrow> row_error" where
  "studentNotFound ctx rowIndex uid =
     \<lparr> er_row = rowIndex + 1,
       er_studentId = uid,
       er_error = ''Student not found in database for division '' @ division ctx
                    @ ''. UID: '' @ uid \<rparr>"

text \<open>
  The outer loop (lines 1010--1203) over the rows behind the header row;
  \<^verbatim>\<open>rowIndex\<close> is the index of the first of them in the sheet.
\<close>

fun process_rows ::
  "upload_ctx \<Rightarrow> nat \<Rightarrow> string list list \<Rightarrow> (nat \<times> subjectInfo) list \<Rightarrow> upload_state
     \<Rightarrow> (nat \<times> subjectInfo) list \<times> upload_state" where
  "process_rows ctx rowIndex [] subjectMap st = (subjectMap, st)"
| "process_rows ctx rowIndex (row # rows) subjectMap st =
     (if row = [] then process_rows ctx (rowIndex + 1) rows subjectMap st
      else
        let uid = trim (cell_at row (uidCol ctx)) in
        if uid = [] then process_rows ctx (rowIndex + 1) rows subjectMap st
        else
          (case find (\<lambda>s. stu_studentId s = uid) (students ctx) of
             None \<Rightarrow>
               process_rows ctx (rowIndex + 1) rows subjectMap
                 (st\<lparr> studentsNotFound := studentsNotFound st + 1,
                      errors := errors st @ [studentNotFound ctx rowIndex uid] \<rparr>)
           | Some student \<Rightarrow>
               let (subjectMap', st') =
                     process_subjects ctx student row subjectMap
                       (st\<lparr>studentsFound := studentsFound st + 1\<rparr>)
               in process_rows ctx (rowIndex + 1) rows subjectMap' st'))"

section \<open>Reconciling the allocations\<close>

definition truthy :: "string option \<Rightarrow> bool" where
  "truthy b = (case b of None \<Rightarrow> False | Some s \<Rightarrow> s \<noteq> [])"

text \<open>
  The filter of lines 1210--1219 and 1247--1254: subject, type and division, and the
  batch only for a Practical entry with a non-empty batch.
\<close>

definition allocationMatches ::
  "oid \<Rightarrow> kind \<Rightarrow> string \<Rightarrow> string option \<Rightarrow> allocation_doc \<Rightarrow> bool" where
  "allocationMatches sid ty dv b a \<longleftrightarrow>
     al_subjectId a = sid \<and> al_type a = ty \<and> al_division a = dv \<and>
     (if ty = Practical \<and> truthy b then al_batch a = b else True)"

text \<open>An update of the first document that passes a filter; nothing is inserted.\<close>

fun update_first :: "('a \<Rightarrow> bool) \<Rightarrow> ('a \<Rightarrow> 'a) \<Rightarrow> 'a list \<Rightarrow> 'a list" where
  "update_first P f [] = []"
| "update_first P f (x # xs) = (if P x then f x # xs else x # update_first P f xs)"

text \<open>Lines 1208--1241; the second component counts \<^verbatim>\<open>allocationsUpdated\<close>.\<close>

fun updateAllocationTotals ::
  "(alloc_key \<times> allocation_update) list \<Rightarrow> allocation_doc list \<times> nat
     \<Rightarrow> allocation_doc list \<times> nat" where
  "updateAllocationTotals [] acc = acc"
| "updateAllocationTotals ((key, u) # ups) (allocs, n) =
     updateAllocationTotals ups
       (update_first (allocationMatches (au_subjectId u) (au_type u) (au_division u) (au_batch u))
          (\<lambda>a. a\<lparr>al_totalPlanned := au_totalPlanned u, al_totalConducted := au_totalConducted u\<rparr>)
          allocs,
        if list_ex (allocationMatches (au_subjectId u) (au_type u) (au_division u) (au_batch u)) allocs
        then n + 1 else n)"

text \<open>Lines 1243--1260: \<^verbatim>\<open>$addToSet\<close> with \<^verbatim>\<open>$each\<close>.\<close>

fun updateAllocationStudents ::
  "(alloc_key \<times> allocation_students) list \<Rightarrow> allocation_doc list \<Rightarrow> allocation_doc list" where
  "updateAllocationStudents [] allocs = allocs"
| "updateAllocationStudents ((key, e) # es) allocs =
     updateAllocationStudents es
       (update_first (allocationMatches (as_subjectId e) (as_type e) (as_division e) (as_batch e))
          (\<lambda>a. a\<lparr>al_students := fold add_to_set (as_students e) (al_students a)\<rparr>)
          allocs)"

text \<open>The counters of the success response (lines 1284--1295).\<close>

record upload_response =
  res_recordsCreated :: nat
  res_subjectsProcessed :: nat
  res_studentsFound :: nat
  res_studentsNotFound :: nat
  res_totalStudentsInSheet :: nat
  res_allocationsUpdated :: nat
  res_errors :: "row_error list"
  res_errorCount :: nat

text \<open>
  \<^verbatim>\<open>processDivisionSheet\<close> from line 1004 to the response, for a sheet whose header
  row, subjects and students were found: \<^verbatim>\<open>sheetData\<close> is the whole sheet,
  \<^verbatim>\<open>subjectMap\<close> the map built from it in lines 925--967. The result is the two
  collections and the response.
\<close>

definition initial_state :: "attendance_doc list \<Rightarrow> upload_state" where
  "initial_state atts =
     \<lparr> attendance = atts, allocationUpdates = [], allocationStudents = [],
       recordsCreated = 0, studentsFound = 0, studentsNotFound = 0, errors = [] \<rparr>"

definition upload_rows ::
  "upload_ctx \<Rightarrow> nat \<Rightarrow> string list list \<Rightarrow> (nat \<times> subjectInfo) list
     \<Rightarrow> attendance_doc list \<times> allocation_doc list
     \<Rightarrow> attendance_doc list \<times> allocation_doc list \<times> upload_response" where
  "upload_rows ctx headerRowIndex sheetData subjectMap db =
     (let st = snd (process_rows ctx (headerRowIndex + 1) (drop (headerRowIndex + 1) sheetData)
                      subjectMap (initial_state (fst db)));
          (allocs, allocationsUpdated) = updateAllocationTotals (allocationUpdates st) (snd db, 0);
          allocs' = updateAllocationStudents (allocationStudents st) allocs
      in (attendance st, allocs',
          \<lparr> res_recordsCreated = recordsCreated st,
            res_subjectsProcessed = length subjectMap,
            res_studentsFound = studentsFound st,
            res_studentsNotFound = studentsNotFound st,
            res_totalStudentsInSheet = studentsFound st + studentsNotFound st,
            res_allocationsUpdated = allocationsUpdated,
            res_errors = take 10 (errors st),
            res_errorCount = length (errors st) \<rparr>))"

section \<open>The writes of an upload, as a list\<close>

text \<open>
  The row loop never reads the \<^verbatim>\<open>Attendance\<close> collection: what it writes is fixed
  by the sheet, the students and \<^verbatim>\<open>subjectMap\<close>. The functions below list the
  writes of a turn, of a row and of all rows in the order the loop issues them; they
  are used to reason about the loop and are not part of the program.
\<close>

definition subject_write ::
  "upload_ctx \<Rightarrow> student_doc \<Rightarrow> string list \<Rightarrow> nat \<times> subjectInfo \<Rightarrow> summary_write option" where
  "subject_write ctx student row entry =
     (case cellNumber row (fst entry) of
        NaN \<Rightarrow> None
      | Fin a \<Rightarrow>
          if a < 0 then None
          else Some (summaryWrite ctx student (useBatchTotal (snd entry) student) a
                       (cellNumber row (fst entry + 1))))"

fun subjects_writes ::
  "upload_ctx \<Rightarrow> student_doc \<Rightarrow> string list \<Rightarrow> (nat \<times> subjectInfo) list \<Rightarrow> summary_write list" where
  "subjects_writes ctx student row [] = []"
| "subjects_writes ctx student row (entry # entries) =
     (case subject_write ctx student row entry of
        None \<Rightarrow> subjects_writes ctx student row entries
      | Some w \<Rightarrow> w # subjects_writes ctx student row entries)"

fun rows_writes ::
  "upload_ctx \<Rightarrow> string list list \<Rightarrow> (nat \<times> subjectInfo) list \<Rightarrow> summary_write list" where
  "rows_writes ctx [] subjectMap = []"
| "rows_writes ctx (row # rows) subjectMap =
     (if row = [] \<or> trim (cell_at row (uidCol ctx)) = [] then rows_writes ctx rows subjectMap
      else
        (case find (\<lambda>s. stu_studentId s = trim (cell_at row (uidCol ctx))) (students ctx) of
           None \<Rightarrow> rows_writes ctx rows subjectMap
         | Some student \<Rightarrow>
             subjects_writes ctx student row subjectMap
             @ rows_writes ctx rows
                 (fst (process_subjects ctx student row subjectMap (initial_state [])))))"

text \<open>
  The key of a stored summary: student, subject, type and period, where a \<^verbatim>\<open>null\<close>
  and a missing period are the same slot.
\<close>

definition storedPeriod :: "period_field \<Rightarrow> string option" where
  "storedPeriod p = (case p of Absent \<Rightarrow> None | Null \<Rightarrow> None | Period s \<Rightarrow> Some s)"

definition summaryKey :: "attendance_doc \<Rightarrow> oid \<times> oid \<times> kind \<times> string option" where
  "summaryKey d = (att_studentId d, att_subjectId d, att_type d, storedPeriod (att_period d))"

text \<open>The key a write asks for.\<close>

definition writeKey :: "summary_write \<Rightarrow> oid \<times> oid \<times> kind \<times> string option" where
  "writeKey w = (w_studentId w, w_subjectId w, w_type w, w_period w)"

section \<open>Example sheets\<close>

text \<open>
  Division B with two students, of batch A and of batch C, and one Practical subject in
  column 4 whose header declares a total for batch A only (\<^verbatim>\<open>SE (Lab) A=10\<close>): the
  entry of \<^verbatim>\<open>subjectMap\<close> has no total of its own, since the header has none for
  the letter B. One allocation exists, for batch C.
\<close>

definition studentU1 :: student_doc where
  "studentU1 = \<lparr>stu_oid = 1, stu_studentId = ''U1'', stu_batch = Some ''A''\<rparr>"

definition studentU2 :: student_doc where
  "studentU2 = \<lparr>stu_oid = 2, stu_studentId = ''U2'', stu_batch = Some ''C''\<rparr>"

definition ctxB :: upload_ctx where
  "ctxB = \<lparr> division = ''B'', teacherId = 9, period = None, uidCol = 1,
            students = [studentU1, studentU2] \<rparr>"

definition labSE :: subjectInfo where
  "labSE = practicalEntry 7 ''Software Engineering'' ''B'' (parseBatchInfo ''SE (Lab) A=10'')"

definition headerB :: "string list" where
  "headerB = [''Roll'', ''UID'', ''NAME OF STUDENTS'', ''Batch'', ''SE (Lab) Lab attended'']"

definition rowU1 :: "string list" where
  "rowU1 = [''1'', ''U1'', ''Student 1'', ''A'', ''8'']"

definition rowU2 :: "string list" where
  "rowU2 = [''2'', ''U2'', ''Student 2'', ''C'', ''5'']"

definition allocationC :: allocation_doc where
  "allocationC = \<lparr> al_subjectId = 7, al_type = Practical, al_division = ''B'',
                   al_batch = Some ''C'', al_totalPlanned = 12, al_totalConducted = 6,
                   al_students = [] \<rparr>"

text \<open>
  A Theory subject in column 4 with the header total 32 (\<^verbatim>\<open>SE (Th) - Total = 32\<close>) and
  the percentage in column 5.
\<close>

definition theorySE :: subjectInfo where
  "theorySE = \<lparr> subjectId = 7, subjectName = ''Software Engineering'', stype = Theory,
                totalLectures = Some 32, batchInfo = None \<rparr>"

text \<open>
  A Theory subject in column 4 without a total in the header, and a row with 30
  attended lectures and an empty percentage cell.
\<close>

definition theoryNoTotal :: subjectInfo where
  "theoryNoTotal = \<lparr> subjectId = 7, subjectName = ''Software Engineering'', stype = Theory,
                     totalLectures = None, batchInfo = None \<rparr>"

definition row30 :: "string list" where
  "row30 = [''1'', ''U1'', ''Student 1'', ''A'', ''30'', '''']"

text \<open>
  Division A with a student of batch B and a student of batch D, and a Practical subject
  whose header is the second format named in the comment of \<^verbatim>\<open>parseBatchInfo\<close>,
  where batch D has the total 0.
\<close>

definition ctxA :: upload_ctx where
  "ctxA = \<lparr> division = ''A'', teacherId = 9, period = None, uidCol = 1,
            students = [\<lparr>stu_oid = 3, stu_studentId = ''U3'', stu_batch = Some ''B''\<rparr>,
                        \<lparr>stu_oid = 4, stu_studentId = ''U4'', stu_batch = Some ''D''\<rparr>] \<rparr>"

definition labZeroD :: subjectInfo where
  "labZeroD = practicalEntry 7 ''Software Engineering'' ''A''
                (parseBatchInfo ''A= 11, B=10 C=11 D=0'')"

definition rowU3 :: "string list" where
  "rowU3 = [''3'', ''U3'', ''Student 3'', ''B'', ''9'']"

definition rowU4 :: "string list" where
  "rowU4 = [''4'', ''U4'', ''Student 4'', ''D'', ''7'']"

text \<open>
  The sheet of division B in the layout the upload expects: a title row, an empty row,
  the category row, the subject row and the header row (index 4), then the two student
  rows. The title row of the first sheet carries the period \<^verbatim>\<open>Aug-25 to Oct-25\<close>, the
  one of the second sheet carries none.
\<close>

definition categoryRowB :: "string list" where
  "categoryRowB = ['''', '''', '''', '''', ''Lab Subjects'']"

definition subjectRowB :: "string list" where
  "subjectRowB = ['''', '''', '''', '''', ''SE (Lab) A=10'']"

definition sheetDated :: "string list list" where
  "sheetDated =
     [['''', ''Month & Year'', '''', '''', ''Aug-25 to Oct-25''], [], categoryRowB, subjectRowB,
      headerB, rowU1, rowU2]"

definition sheetUndated :: "string list list" where
  "sheetUndated =
     [['''', ''Month & Year'', '''', '''', ''''], [], categoryRowB, subjectRowB,
      headerB, rowU1, rowU2]"

definition ctxDated :: upload_ctx where
  "ctxDated = \<lparr> division = ''B'', teacherId = 9, period = Some ''Aug-25 to Oct-25'', uidCol = 1,
                students = [studentU1, studentU2] \<rparr>"

section \<open>The defaulter report\<close>

text \<open>
  The records \<^verbatim>\<open>Attendance.find(attendanceQuery)\<close> returns for a student: those of
  the student, restricted to the allocated subjects when the list of them is given and
  not empty.
\<close>

definition studentRecords ::
  "oid list option \<Rightarrow> attendance_doc list \<Rightarrow> oid \<Rightarrow> attendance_doc list" where
  "studentRecords allocatedSubjectIds atts sid =
     filter (\<lambda>r. att_studentId r = sid \<and>
                 (case allocatedSubjectIds of
                    None \<Rightarrow> True
                  | Some ids \<Rightarrow> if ids = [] then True else att_subjectId r \<in> set ids))
       atts"












definition summaryWith :: "oid \<Rightarrow> rat \<Rightarrow> attendance_doc" where
  "summaryWith sid pct =
     \<lparr> att_studentId = sid, att_subjectId = 7, att_type = Theory,
       att_totalConducted = 0, att_totalAttended = 0, att_percentage = pct,
       att_period = Null, att_division = Some ''B'', att_batch = None, att_recordedBy = 9 \<rparr>"







section \<open>The defaulter check\<close>

text \<open>
  The database as \<^verbatim>\<open>checkDefaulters\<close> sees it. A query may be rejected; then the
  \<^verbatim>\<open>await\<close> throws. \<^verbatim>\<open>student_find_fails\<close> says whether \<^verbatim>\<open>Student.find()\<close> is
  rejected, \<^verbatim>\<open>attendance_find_fails\<close> whether \<^verbatim>\<open>Attendance.find\<close> is rejected for
  the query of a given student, \<^verbatim>\<open>allocation_find_fails\<close> whether the
  \<^verbatim>\<open>Allocation.find\<close> of the route is.
\<close>

datatype db_error = QueryRejected

record subject_doc =
  sub_oid :: oid
  sub_name :: string
  sub_code :: string

record database =
  db_students :: "student_doc list"
  db_attendance :: "attendance_doc list"
  db_subjects :: "subject_doc list"
  db_teacher_subjects :: "oid \<Rightarrow> oid list"
  student_find_fails :: bool
  attendance_find_fails :: "oid \<Rightarrow> bool"
  allocation_find_fails :: bool

definition Student_find :: "database \<Rightarrow> db_error + student_doc list" where
  "Student_find db = (if student_find_fails db then Inl QueryRejected else Inr (db_students db))"

definition Attendance_find ::
  "database \<Rightarrow> oid \<Rightarrow> oid list option \<Rightarrow> db_error + attendance_doc list" where
  "Attendance_find db sid allocatedSubjectIds =
     (if attendance_find_fails db sid then Inl QueryRejected
      else Inr (studentRecords allocatedSubjectIds (db_attendance db) sid))"

text \<open>\<^verbatim>\<open>.populate('subjectId', 'name code')\<close>: the subject document, or \<^verbatim>\<open>null\<close>.\<close>

definition populate_subject :: "database \<Rightarrow> attendance_doc \<Rightarrow> subject_doc option" where
  "populate_subject db r = find (\<lambda>s. sub_oid s = att_subjectId r) (db_subjects db)"

record subject_stats =
  ss_subject :: subject_doc
  ss_total :: rat
  ss_present :: rat
  ss_percentage :: rat

text \<open>The body of \<^verbatim>\<open>attendance.forEach\<close> (lines 1499--1532).\<close>

definition add_record ::
  "database \<Rightarrow> oid list option \<Rightarrow> (oid \<times> subject_stats) list \<Rightarrow> attendance_doc
     \<Rightarrow> (oid \<times> subject_stats) list" where
  "add_record db allocatedSubjectIds subjectStats r =
     (case populate_subject db r of
        None \<Rightarrow> subjectStats
      | Some subject \<Rightarrow>
          if (case allocatedSubjectIds of
                None \<Rightarrow> False
              | Some ids \<Rightarrow> sub_oid subject \<notin> set ids)
          then subjectStats
          else
            let stats = (case map_of subjectStats (sub_oid subject) of
                           None \<Rightarrow> \<lparr>ss_subject = subject, ss_total = 0, ss_present = 0,
                                     ss_percentage = 0\<rparr>
                         | Some s \<Rightarrow> s)
            in AList.update (sub_oid subject)
                 (stats\<lparr> ss_total := ss_total stats + att_totalConducted r,
                         ss_present := ss_present stats + att_totalAttended r,
                         ss_percentage := (if 0 < att_percentage r then att_percentage r
                                           else ss_percentage stats) \<rparr>)
                 subjectStats)"

record defaulter_subject =
  ds_subject :: subject_doc
  ds_total :: rat
  ds_present :: rat
  ds_percentage :: rat

record defaulter =
  df_student :: student_doc
  df_defaulterSubjects :: "defaulter_subject list"

text \<open>Lines 1534--1550: the subjects of a student below the threshold.\<close>

definition defaulterSubjects :: "int \<Rightarrow> (oid \<times> subject_stats) list \<Rightarrow> defaulter_subject list" where
  "defaulterSubjects threshold subjectStats =
     map (\<lambda>(percentage, stats).
            \<lparr>ds_subject = ss_subject stats, ds_total = ss_total stats,
             ds_present = ss_present stats, ds_percentage = percentage\<rparr>)
       (filter (\<lambda>(percentage, stats). percentage < of_int threshold)
          (map (\<lambda>(key, stats).
                  (if ss_percentage stats = 0 \<and> 0 < ss_total stats
                   then ss_present stats / ss_total stats * 100
                   else ss_percentage stats, stats))
             subjectStats))"

text \<open>
  The loop over the students inside the \<^verbatim>\<open>try\<close> block (lines 1482--1564): it stops
  with the error of the first rejected query.
\<close>

fun defaulters_loop ::
  "int \<Rightarrow> oid list option \<Rightarrow> database \<Rightarrow> student_doc list \<Rightarrow> defaulter list
     \<Rightarrow> db_error + defaulter list" where
  "defaulters_loop threshold allocatedSubjectIds db [] defaulters = Inr defaulters"
| "defaulters_loop threshold allocatedSubjectIds db (student # rest) defaulters =
     (case Attendance_find db (stu_oid student) allocatedSubjectIds of
        Inl e \<Rightarrow> Inl e
      | Inr records \<Rightarrow>
          if records = [] then defaulters_loop threshold allocatedSubjectIds db rest defaulters
          else
            let subjectStats = foldl (add_record db allocatedSubjectIds) [] records;
                subjects = defaulterSubjects threshold subjectStats
            in defaulters_loop threshold allocatedSubjectIds db rest
                 (if subjects \<noteq> []
                  then defaulters @ [\<lparr>df_student = student, df_defaulterSubjects = subjects\<rparr>]
                  else defaulters))"

text \<open>The \<^verbatim>\<open>try\<close> block of \<^verbatim>\<open>checkDefaulters\<close>.\<close>

definition checkDefaulters_try ::
  "int \<Rightarrow> oid list option \<Rightarrow> database \<Rightarrow> db_error + defaulter list" where
  "checkDefaulters_try threshold allocatedSubjectIds db =
     (case Student_find db of
        Inl e \<Rightarrow> Inl e
      | Inr studs \<Rightarrow> defaulters_loop threshold allocatedSubjectIds db studs [])"

text \<open>\<^verbatim>\<open>checkDefaulters\<close>: the \<^verbatim>\<open>catch\<close> block returns the empty list.\<close>

definition checkDefaulters :: "int \<Rightarrow> oid list option \<Rightarrow> database \<Rightarrow> defaulter list" where
  "checkDefaulters threshold allocatedSubjectIds db =
     (case checkDefaulters_try threshold allocatedSubjectIds db of
        Inl e \<Rightarrow> []
      | Inr defaulters \<Rightarrow> defaulters)"

text \<open>
  The route \<^verbatim>\<open>GET /defaulters\<close> (lines 1355--1380): the response is the JSON list
  with status 200, or status 500 when the handler's own \<^verbatim>\<open>try\<close> block throws.
\<close>

datatype role = Admin | Teacher | StudentRole

datatype defaulters_response = Json "defaulter list" | ServerError

definition getDefaulters :: "role \<Rightarrow> oid \<Rightarrow> int \<Rightarrow> database \<Rightarrow> defaulters_response" where
  "getDefaulters userRole userId threshold db =
     (if userRole = Teacher then
        (if allocation_find_fails db then ServerError
         else if db_teacher_subjects db userId = [] then Json []
         else Json (checkDefaulters threshold (Some (db_teacher_subjects db userId)) db))
      else Json (checkDefaulters threshold None db))"

text \<open>
  A database with the two students of division B, one summary of student U1 at 50
  percent, and an attendance query that is rejected for student U2.
\<close>

definition dbRejecting :: database where
  "dbRejecting =
     \<lparr> db_students = [studentU1, studentU2],
       db_attendance = [summaryWith 1 50],
       db_subjects = [\<lparr>sub_oid = 7, sub_name = ''Software Engineering'', sub_code = ''SE''\<rparr>],
       db_teacher_subjects = (\<lambda>t. []),
       student_find_fails = False,
       attendance_find_fails = (\<lambda>sid. sid = 2),
       allocation_find_fails = False \<rparr>"

text \<open>
  The same database with subject 7 allocated to every teacher, and the same again with
  the route's \<^verbatim>\<open>Allocation.find\<close> (line 1364) rejected.
\<close>

definition dbAllocated :: database where
  "dbAllocated = dbRejecting\<lparr>db_teacher_subjects := (\<lambda>t. [7])\<rparr>"

definition dbAllocationDown :: database where
  "dbAllocationDown = dbAllocated\<lparr>allocation_find_fails := True\<rparr>"

section \<open>The upload handler and the uploaded file\<close>

text \<open>
  The file system is the list of the paths that exist. \<^verbatim>\<open>fs.unlinkSync\<close> removes a
  path and throws when the path does not exist.
\<close>

datatype exn = ENOENT | Thrown

definition unlinkSync :: "string \<Rightarrow> string list \<Rightarrow> exn + string list" where
  "unlinkSync path files =
     (if path \<in> set files then Inr (removeAll path files) else Inl ENOENT)"

text \<open>\<^verbatim>\<open>try { fs.unlinkSync(path); } catch (_) {}\<close>.\<close>

definition try_unlink :: "string \<Rightarrow> string list \<Rightarrow> string list" where
  "try_unlink path files =
     (case unlinkSync path files of Inl e \<Rightarrow> files | Inr files' \<Rightarrow> files')"

text \<open>
  The ways \<^verbatim>\<open>processDivisionSheet\<close> ends, one for each \<^verbatim>\<open>return\<close> of the function
  and one for an exception thrown inside its \<^verbatim>\<open>try\<close> block. Which of them is taken
  is decided by the contents of the sheet and of the database.
\<close>

datatype sheet_exit =
    HeaderNotFound
  | MissingColumns
  | NoSubjectsDetected
  | NoSubjectMatch
  | NoStudentsInDivision
  | NoSubjectsToProcess
  | Completed
  | ThrownInside

datatype http_response = Status nat

text \<open>
  The effect of \<^verbatim>\<open>processDivisionSheet\<close> on the file: every \<^verbatim>\<open>return\<close> is preceded
  by \<^verbatim>\<open>fs.unlinkSync(filePath)\<close>, and the \<^verbatim>\<open>catch\<close> block (lines 1297--1301)
  unlinks and throws again. The result is the response sent, or the exception that
  leaves the function.
\<close>

definition processDivisionSheet_exit ::
  "sheet_exit \<Rightarrow> string \<Rightarrow> string list \<Rightarrow> (exn + http_response) \<times> string list" where
  "processDivisionSheet_exit ex filePath files =
     (if ex = ThrownInside then (Inl Thrown, try_unlink filePath files)
      else
        (case unlinkSync filePath files of
           Inl e \<Rightarrow> (Inl e, try_unlink filePath files)
         | Inr files' \<Rightarrow> (Inr (Status (if ex = Completed then 200 else 400)), files')))"

record uploaded_file =
  file_path :: string
  file_originalname :: string

record upload_request =
  req_division :: "string option"
  req_file :: "uploaded_file option"

definition toLowerChar :: "char \<Rightarrow> char" where
  "toLowerChar c =
     (case map_of (zip ''ABCDEFGHIJKLMNOPQRSTUVWXYZ'' ''abcdefghijklmnopqrstuvwxyz'') c of
        Some l \<Rightarrow> l
      | None \<Rightarrow> c)"

text \<open>\<^verbatim>\<open>originalname.split('.').pop().toLowerCase()\<close>: the text behind the last dot.\<close>

definition fileExtension :: "string \<Rightarrow> string" where
  "fileExtension name = map toLowerChar (rev (takeWhile (\<lambda>c. c \<noteq> CHR ''.'') (rev name)))"

text \<open>\<^verbatim>\<open>!division || !['A', 'B', 'C', 'D'].includes(division.toUpperCase())\<close>.\<close>

definition divisionRejected :: "string option \<Rightarrow> bool" where
  "divisionRejected d =
     (case d of
        None \<Rightarrow> True
      | Some s \<Rightarrow> s = [] \<or> toUpperCase s \<notin> set [''A'', ''B'', ''C'', ''D''])"

text \<open>
  The handler of \<^verbatim>\<open>POST /upload-division-sheet\<close> (lines 437--511) as far as the file
  is concerned. \<^verbatim>\<open>read_fails\<close> says whether reading the workbook or the CSV stream
  throws; \<^verbatim>\<open>ex\<close> is the way \<^verbatim>\<open>processDivisionSheet\<close> ends. The result is the
  response and the files that exist afterwards.
\<close>

definition uploadDivisionSheet ::
  "upload_request \<Rightarrow> bool \<Rightarrow> sheet_exit \<Rightarrow> string list \<Rightarrow> http_response \<times> string list" where
  "uploadDivisionSheet req read_fails ex files =
     (if divisionRejected (req_division req) then (Status 400, files)
      else
        (case req_file req of
           None \<Rightarrow> (Status 400, files)
         | Some file \<Rightarrow>
             if fileExtension (file_originalname file) \<in> set [''xlsx'', ''xls'', ''csv''] then
               (if read_fails then (Status 500, try_unlink (file_path file) files)
                else
                  (case processDivisionSheet_exit ex (file_path file) files of
                     (Inr response, files') \<Rightarrow> (response, files')
                   | (Inl e, files') \<Rightarrow> (Status 500, try_unlink (file_path file) files')))
             else
               (case unlinkSync (file_path file) files of
                  Inr files' \<Rightarrow> (Status 400, files')
                | Inl e \<Rightarrow> (Status 500, try_unlink (file_path file) files))))"

section \<open>The periodic allocation sync\<close>

text \<open>
  The worker's module state is the flag \<^verbatim>\<open>isRunning\<close>. The model adds two
  counters: how many bodies of \<^verbatim>\<open>syncAllocationStudents\<close> are between the guard and
  the \<^verbatim>\<open>finally\<close> block, and how many allocations have been processed.

  JavaScript runs a function up to its first \<^verbatim>\<open>await\<close> without interruption, so the
  test of the flag and its assignment (lines 17--22) are one step. The events are: an
  invocation of \<^verbatim>\<open>syncAllocationStudents\<close> (a tick of the interval, the initial run or
  a manual trigger); a running body resuming after an \<^verbatim>\<open>await\<close> to process an
  allocation; a running body reaching its \<^verbatim>\<open>finally\<close> block, by returning or by
  throwing.
\<close>

record sync_worker =
  isRunning :: bool
  running_bodies :: nat
  allocations_processed :: nat

datatype sync_event = Invoke | Resume | Finish

definition sync_idle :: sync_worker where
  "sync_idle = \<lparr>isRunning = False, running_bodies = 0, allocations_processed = 0\<rparr>"

fun sync_step :: "sync_worker \<Rightarrow> sync_event \<Rightarrow> sync_worker" where
  "sync_step w Invoke =
     (if isRunning w then w
      else w\<lparr>isRunning := True, running_bodies := running_bodies w + 1\<rparr>)"
| "sync_step w Resume =
     (if 0 < running_bodies w
      then w\<lparr>allocations_processed := allocations_processed w + running_bodies w\<rparr>
      else w)"
| "sync_step w Finish =
     (if 0 < running_bodies w
      then w\<lparr>isRunning := False, running_bodies := running_bodies w - 1\<rparr>
      else w)"

definition sync_run :: "sync_event list \<Rightarrow> sync_worker" where
  "sync_run events = foldl sync_step sync_idle events"

section \<open>Properties of the batch-info parser\<close>

lemma matches_batchPatternI:
  assumes "is_batch_letter l" "list_all is_space ws1" "is_sep sep" "list_all is_space ws2" "is_digit d"
  shows "matches_batchPattern (pre @ [l] @ ws1 @ [sep] @ ws2 @ [d] @ rest)"
  unfolding matches_batchPattern_def
  using assms by (intro exI conjI) (rule refl, assumption+)

lemma batchPattern_at_matches:
  assumes "batchPattern_at s = Some (l, ds, rest)"
  shows "matches_batchPattern s"
proof -
  from assms obtain r0 sep r1 where s: "s = l # r0"
    and l: "is_batch_letter l" and r1: "dropWhile is_space r0 = sep # r1" and sep: "is_sep sep"
    and "ds = takeWhile is_digit (dropWhile is_space r1)"
    and ds: "takeWhile is_digit (dropWhile is_space r1) \<noteq> []"
    and "rest = dropWhile is_digit (dropWhile is_space r1)"
    by (rule batchPattern_at_SomeE)
  define ws1 where "ws1 = takeWhile is_space r0"
  define ws2 where "ws2 = takeWhile is_space r1"
  define r2 where "r2 = dropWhile is_space r1"
  have "takeWhile is_digit r2 \<noteq> []"
    unfolding r2_def by (rule ds)
  then obtain d r3 where r2: "r2 = d # r3" and d: "is_digit d"
    by (cases r2) (simp_all split: if_splits)
  have f0: "ws1 @ sep # r1 = r0"
    unfolding ws1_def r1[symmetric] by (rule takeWhile_dropWhile_id)
  have f1: "ws2 @ d # r3 = r1"
    unfolding ws2_def r2[symmetric] r2_def by (rule takeWhile_dropWhile_id)
  have eq: "[] @ [l] @ ws1 @ [sep] @ ws2 @ [d] @ r3 = s"
    by (simp only: s append_Nil append_Cons f0 f1)
  have w1: "list_all is_space ws1" and w2: "list_all is_space ws2"
    by (auto simp: ws1_def ws2_def list_all_iff dest: set_takeWhileD)
  have "matches_batchPattern ([] @ [l] @ ws1 @ [sep] @ ws2 @ [d] @ r3)"
    by (rule matches_batchPatternI[OF l w1 sep w2 d])
  then show ?thesis
    by (simp only: eq)
qed

lemma matches_batchPattern_Cons:
  assumes "matches_batchPattern cs"
  shows "matches_batchPattern (c # cs)"
proof -
  from assms obtain pre l ws1 sep ws2 d rest where
    cs: "cs = pre @ [l] @ ws1 @ [sep] @ ws2 @ [d] @ rest" and
    p: "is_batch_letter l" "list_all is_space ws1" "is_sep sep" "list_all is_space ws2" "is_digit d"
    unfolding matches_batchPattern_def by blast
  from cs have "c # cs = (c # pre) @ [l] @ ws1 @ [sep] @ ws2 @ [d] @ rest"
    by simp
  with matches_batchPatternI[OF p, of "c # pre" rest] show ?thesis
    by simp
qed

lemma exec_loop_no_match:
  "\<not> matches_batchPattern s \<Longrightarrow> exec_loop s acc = acc"
proof (induction s)
  case Nil
  then show ?case by simp
next
  case (Cons c cs)
  have "batchPattern_at (c # cs) = None"
  proof (cases "batchPattern_at (c # cs)")
    case (Some m)
    then show ?thesis using batchPattern_at_matches[of "c # cs"] Cons.prems
      by (cases m) auto
  qed simp
  moreover have "\<not> matches_batchPattern cs"
    using Cons.prems matches_batchPattern_Cons by blast
  ultimately show ?case using Cons.IH by simp
qed

lemma matches_batchPattern_sep:
  assumes "matches_batchPattern s"
  shows "\<exists>c \<in> set s. is_sep c"
proof -
  from assms obtain pre l ws1 sep ws2 d rest where
    "s = pre @ [l] @ ws1 @ [sep] @ ws2 @ [d] @ rest" "is_sep sep"
    unfolding matches_batchPattern_def by blast
  then show ?thesis by auto
qed

text \<open>
  The predicate is exactly the condition under which the parser finds something: a text
  with the pattern never gives the empty mapping.
\<close>

lemma AList_update_nonempty: "AList.update k v al \<noteq> []"
  by (cases al) auto

lemma exec_loop_keeps_entries: "acc \<noteq> [] \<Longrightarrow> exec_loop s acc \<noteq> []"
proof (induction s acc rule: exec_loop.induct)
  case (1 acc)
  then show ?case by simp
next
  case (2 c cs acc)
  show ?case
  proof (cases "batchPattern_at (c # cs)")
    case None
    with 2 show ?thesis by simp
  next
    case (Some m)
    obtain l ds rest where m: "m = (l, ds, rest)" by (cases m) auto
    from "2.IH"(2)[OF Some[unfolded m] refl refl, OF AList_update_nonempty] Some m
    show ?thesis by simp
  qed
qed

lemma is_sep_not_space: "is_sep c \<Longrightarrow> \<not> is_space c"
  by (auto simp: is_sep_def is_space_def)

lemma is_digit_not_space: "is_digit c \<Longrightarrow> \<not> is_space c"
  by (auto simp: is_digit_def is_space_def)

lemma dropWhile_spaces_append:
  "list_all is_space ws \<Longrightarrow> \<not> is_space c \<Longrightarrow> dropWhile is_space (ws @ c # r) = c # r"
  by (induction ws) auto

lemma batchPattern_at_head:
  assumes "is_batch_letter l" "list_all is_space ws1" "is_sep sep" "list_all is_space ws2"
    "is_digit d"
  shows "batchPattern_at ([l] @ ws1 @ [sep] @ ws2 @ [d] @ rest) \<noteq> None"
proof -
  have 1: "dropWhile is_space (ws1 @ sep # ws2 @ d # rest) = sep # ws2 @ d # rest"
    using assms by (simp add: dropWhile_spaces_append is_sep_not_space)
  have 2: "dropWhile is_space (ws2 @ d # rest) = d # rest"
    using assms by (simp add: dropWhile_spaces_append is_digit_not_space)
  show ?thesis
    using assms(1,3,5) by (simp add: batchPattern_at_def 1 2)
qed

lemma exec_loop_finds_match:
  "matches_batchPattern s \<Longrightarrow> exec_loop s acc \<noteq> []"
proof (induction s acc rule: exec_loop.induct)
  case (1 acc)
  then show ?case by (simp add: matches_batchPattern_def)
next
  case (2 c cs acc)
  show ?case
  proof (cases "batchPattern_at (c # cs)")
    case (Some m)
    obtain l ds rest where m: "m = (l, ds, rest)" by (cases m) auto
    from Some m exec_loop_keeps_entries[OF AList_update_nonempty] show ?thesis by simp
  next
    case None
    from "2.prems" obtain pre l ws1 sep ws2 d rest where
      s: "c # cs = pre @ [l] @ ws1 @ [sep] @ ws2 @ [d] @ rest" and
      p: "is_batch_letter l" "list_all is_space ws1" "is_sep sep" "list_all is_space ws2" "is_digit d"
      unfolding matches_batchPattern_def by blast
    have "pre \<noteq> []"
    proof
      assume "pre = []"
      with s batchPattern_at_head[OF p, of rest] None show False by simp
    qed
    then obtain pre' where pre: "pre = c # pre'"
      using s by (cases pre) auto
    with s have "cs = pre' @ [l] @ ws1 @ [sep] @ ws2 @ [d] @ rest" by simp
    with matches_batchPatternI[OF p, of pre' rest] have "matches_batchPattern cs" by simp
    with "2.IH"(1)[OF None] None show ?thesis by simp
  qed
qed

lemma parseBatchInfo_empty_iff:
  "parseBatchInfo str = [] \<longleftrightarrow> str = [] \<or> \<not> matches_batchPattern (normalizeBatchText str)"
  using exec_loop_finds_match[of "normalizeBatchText str" "[]"]
    exec_loop_no_match[of "normalizeBatchText str" "[]"]
  by (auto simp: parseBatchInfo_def)

text \<open>
  Claim C8. \<^verbatim>\<open>parseBatchInfo\<close> maps the text
  \<^verbatim>\<open>A= 10, B= 11            C= 11, D=  10\<close> to A:10, B:11, C:11, D:10, maps the empty
  string to the empty mapping, and returns the empty mapping for every text whose
  normalised form contains no letter/separator/number pattern. The function is total:
  it has no failing branch.
\<close>

theorem parseBatchInfo_spec:
  "parseBatchInfo ''A= 10, B= 11            C= 11, D=  10'' =
     [(''A'', 10), (''B'', 11), (''C'', 11), (''D'', 10)]
   \<and> parseBatchInfo [] = []
   \<and> (\<forall>str. \<not> matches_batchPattern (normalizeBatchText str) \<longrightarrow> parseBatchInfo str = [])"
proof (intro conjI allI impI)
  show "parseBatchInfo ''A= 10, B= 11            C= 11, D=  10'' =
     [(''A'', 10), (''B'', 11), (''C'', 11), (''D'', 10)]"
    by code_simp
  show "parseBatchInfo [] = []"
    by (simp add: parseBatchInfo_def)
  fix str
  assume "\<not> matches_batchPattern (normalizeBatchText str)"
  then show "parseBatchInfo str = []"
    by (simp add: parseBatchInfo_def exec_loop_no_match)
qed

theorem parseBatchInfo_spec_witness:
  "\<not> matches_batchPattern (normalizeBatchText ''SE (Lab) no totals'')
   \<and> parseBatchInfo ''SE (Lab) no totals'' = []"
proof -
  have n: "normalizeBatchText ''SE (Lab) no totals'' = ''SE (Lab) no totals''"
    by code_simp
  have "\<not> matches_batchPattern ''SE (Lab) no totals''"
    using matches_batchPattern_sep[of "''SE (Lab) no totals''"] by (auto simp: is_sep_def)
  with n show ?thesis using parseBatchInfo_spec by simp
qed

section \<open>Properties of the attendance upserter\<close>

text \<open>
  The model on the smallest sheet: one student row with 28 attended lectures of a Theory
  subject whose header declares the total 32.
\<close>

lemma end_to_end_example:
  "upload_rows
     \<lparr> division = ''A'', teacherId = 9, period = Some ''Aug-25 to Oct-25'', uidCol = 1,
       students = [studentU1] \<rparr>
     0
     [[''Roll'', ''UID'', ''NAME OF STUDENTS'', ''Batch'', ''SE (Th) lectures attended'', ''% attended''],
      [''1'', ''U1'', ''Student 1'', ''A'', ''28'', '''']]
     [(4, theorySE)]
     ([], [\<lparr> al_subjectId = 7, al_type = Theory, al_division = ''A'', al_batch = None,
             al_totalPlanned = 0, al_totalConducted = 0, al_students = [] \<rparr>])
   = ([\<lparr> att_studentId = 1, att_subjectId = 7, att_type = Theory,
          att_totalConducted = 32, att_totalAttended = 28, att_percentage = 175 / 2,
          att_period = Period ''Aug-25 to Oct-25'', att_division = Some ''A'', att_batch = None,
          att_recordedBy = 9 \<rparr>],
       [\<lparr> al_subjectId = 7, al_type = Theory, al_division = ''A'', al_batch = None,
          al_totalPlanned = 32, al_totalConducted = 32, al_students = [1] \<rparr>],
       \<lparr> res_recordsCreated = 1, res_subjectsProcessed = 1, res_studentsFound = 1,
         res_studentsNotFound = 0, res_totalStudentsInSheet = 1, res_allocationsUpdated = 1,
         res_errors = [], res_errorCount = 0 \<rparr>)"
  by code_simp

lemma derivedTotal_integer: "\<exists>k. derivedTotal info a p = of_int k"
proof (cases "totalLectures info")
  case None
  then show ?thesis by (auto simp: derivedTotal_def)
next
  case (Some n)
  show ?thesis
  proof (cases "n = 0")
    case True
    with Some show ?thesis by (auto simp: derivedTotal_def)
  next
    case False
    with Some have "derivedTotal info a p = of_int (int n)"
      by (simp add: derivedTotal_def)
    then show ?thesis by blast
  qed
qed

lemma floor_value_bound:
  fixes a :: rat
  assumes "0 \<le> a"
  shows "a \<le> of_int (max (round a) \<lceil>a * (12 / 10)\<rceil>)"
proof -
  have "a \<le> a * (12 / 10)" using assms by simp
  also have "\<dots> \<le> of_int \<lceil>a * (12 / 10)\<rceil>" by (rule le_of_int_ceiling)
  also have "\<dots> \<le> of_int (max (round a) \<lceil>a * (12 / 10)\<rceil>)" by simp
  finally show ?thesis .
qed

lemma totalClasses_integer: "\<exists>k. totalClasses info a p = of_int k"
proof -
  obtain k where "derivedTotal info a p = of_int k"
    using derivedTotal_integer by blast
  then show ?thesis
    by (auto simp: totalClasses_def Let_def)
qed

lemma round_totalClasses:
  "of_int (round (totalClasses info a p)) = totalClasses info a p"
proof -
  obtain k where "totalClasses info a p = of_int k"
    using totalClasses_integer by blast
  then show ?thesis by simp
qed

lemma totalClasses_ge:
  assumes "0 \<le> a"
  shows "a \<le> totalClasses info a p"
  using floor_value_bound[OF assms] by (auto simp: totalClasses_def Let_def)

lemma totalClasses_raised:
  assumes "derivedTotal info a p < a"
  shows "totalClasses info a p = of_int (max (round a) \<lceil>a * (12 / 10)\<rceil>)"
  using assms by (simp add: totalClasses_def Let_def)

lemma upsert_has_written:
  "\<exists>d \<in> set (findOneAndUpdate_upsert w s). queryMatches w d \<and>
      att_totalConducted d = w_totalConducted w \<and> att_totalAttended d = w_totalAttended w \<and>
      att_percentage d = w_percentage w"
proof (induction s)
  case Nil
  show ?case
    by (cases "w_period w") (simp_all add: insertedDoc_def queryMatches_def periodField_def)
next
  case (Cons d ds)
  show ?case
  proof (cases "queryMatches w d")
    case True
    then have "queryMatches w (applySet w d)"
      by (cases "w_period w") (simp_all add: applySet_def queryMatches_def periodField_def)
    with True show ?thesis by (simp add: applySet_def)
  next
    case False
    with Cons.IH show ?thesis by auto
  qed
qed

lemma process_subject_written:
  assumes "cellNumber row (fst entry) = Fin a" and "0 \<le> a"
  shows "attendance (snd (process_subject ctx student row entry st)) =
           findOneAndUpdate_upsert
             (summaryWrite ctx student (useBatchTotal (snd entry) student) a
                (cellNumber row (fst entry + 1)))
             (attendance st)"
  using assms by (simp add: process_subject_def Let_def)

lemma process_subject_skipped:
  assumes "cellNumber row (fst entry) = NaN \<or> (\<exists>q<0. cellNumber row (fst entry) = Fin q)"
  shows "process_subject ctx student row entry st = (entry, st)"
  using assms by (auto simp: process_subject_def)

lemma useBatchTotal_same_subject:
  "subjectId (useBatchTotal info student) = subjectId info"
  "stype (useBatchTotal info student) = stype info"
  "batchInfo (useBatchTotal info student) = batchInfo info"
  by (simp_all add: useBatchTotal_def split: option.splits)

text \<open>
  Claim C4. For every processed pair of a student row and a subject column, the stored
  \<^verbatim>\<open>totalConducted\<close> is at least the attended value, and when the derived total is
  less than the attended value it is \<^verbatim>\<open>max(round(attended), ceil(attended*1.2))\<close>.
\<close>

theorem safety_floor:
  assumes "cellNumber row col = Fin a" and "0 \<le> a"
  shows "\<exists>d \<in> set (attendance (snd (process_subject ctx student row (col, info) st))).
           att_studentId d = stu_oid student \<and> att_subjectId d = subjectId info \<and>
           att_type d = stype info \<and>
           att_totalAttended d = of_int (round a) \<and>
           a \<le> att_totalConducted d \<and>
           (derivedTotal (useBatchTotal info student) a (cellNumber row (col + 1)) < a
              \<longrightarrow> att_totalConducted d = of_int (max (round a) \<lceil>a * (12 / 10)\<rceil>))"
proof -
  define info' where "info' = useBatchTotal info student"
  define p where "p = cellNumber row (col + 1)"
  define w where "w = summaryWrite ctx student info' a p"
  have stored: "attendance (snd (process_subject ctx student row (col, info) st)) =
      findOneAndUpdate_upsert w (attendance st)"
    unfolding w_def info'_def p_def
    using process_subject_written[of row "(col, info)" a ctx student st] assms by simp
  obtain d where d: "d \<in> set (findOneAndUpdate_upsert w (attendance st))"
    and m: "queryMatches w d"
    and c: "att_totalConducted d = w_totalConducted w"
    and t: "att_totalAttended d = w_totalAttended w"
    using upsert_has_written[of w "attendance st"] by blast
  have conducted: "w_totalConducted w = totalClasses info' a p"
    by (simp add: w_def summaryWrite_def round_totalClasses)
  have "att_studentId d = stu_oid student" "att_subjectId d = subjectId info"
    "att_type d = stype info"
    using m by (simp_all add: queryMatches_def w_def summaryWrite_def info'_def
        useBatchTotal_same_subject)
  moreover have "att_totalAttended d = of_int (round a)"
    using t by (simp add: w_def summaryWrite_def)
  moreover have "a \<le> att_totalConducted d"
    using totalClasses_ge[OF assms(2), of info' p] c conducted by simp
  moreover have "derivedTotal info' a p < a \<longrightarrow>
      att_totalConducted d = of_int (max (round a) \<lceil>a * (12 / 10)\<rceil>)"
    using totalClasses_raised[of info' a p] c conducted by simp
  ultimately show ?thesis
    using d unfolding stored info'_def[symmetric] p_def[symmetric] by blast
qed

text \<open>
  The example of the claim: 30 attended lectures, an empty percentage cell and no total
  in the header give a stored total of 30.
\<close>

theorem safety_floor_witness:
  "cellNumber row30 4 = Fin 30 \<and> (0::rat) \<le> 30 \<and>
   \<not> positive (cellNumber row30 5) \<and> totalLectures theoryNoTotal = None \<and>
   (\<exists>d \<in> set (attendance (snd (process_subject ctxB studentU1 row30 (4, theoryNoTotal)
                                  (initial_state [])))).
      att_studentId d = 1 \<and> att_totalAttended d = 30 \<and> 30 \<le> att_totalConducted d) \<and>
   map att_totalConducted
     (attendance (snd (process_subject ctxB studentU1 row30 (4, theoryNoTotal) (initial_state []))))
     = [30]"
proof -
  have h: "cellNumber row30 4 = Fin 30"
    by code_simp
  have p: "\<not> positive (cellNumber row30 5)" "totalLectures theoryNoTotal = None"
    by code_simp+
  have v: "map att_totalConducted
     (attendance (snd (process_subject ctxB studentU1 row30 (4, theoryNoTotal) (initial_state []))))
     = [30]"
    by code_simp
  from safety_floor[OF h, of ctxB studentU1 theoryNoTotal "initial_state []"]
  show ?thesis using h p v by (auto simp: studentU1_def theoryNoTotal_def)
qed

section \<open>Attended cells that are not numbers\<close>

text \<open>
  Claim C6 as stated fails: an empty attended cell is not a number, yet the pair is
  processed. Here the student's cell in column 4 is empty and a summary with 0 attended
  lectures out of 32 is written.
\<close>

theorem empty_cell_is_processed:
  "parseFloat (cell_at [''1'', ''U1'', ''Student 1'', ''A'', '''', ''''] 4) = NaN \<and>
   attendance (snd (process_subject ctxB studentU1 [''1'', ''U1'', ''Student 1'', ''A'', '''', '''']
                      (4, theorySE) (initial_state []))) =
     [\<lparr>att_studentId = 1, att_subjectId = 7, att_type = Theory,
       att_totalConducted = 32, att_totalAttended = 0, att_percentage = 0,
       att_period = Null, att_division = Some ''B'', att_batch = None,
       att_recordedBy = 9\<rparr>]"
  by code_simp

text \<open>
  Claim C6, amended. When the attended cell is not empty and \<^verbatim>\<open>parseFloat\<close> reads
  \<^verbatim>\<open>NaN\<close> or a negative number from it, the pair is skipped: no summary is created or
  updated and nothing else changes. An empty or missing attended cell is read as 0 and
  the pair is processed.
\<close>

theorem invalid_attended_cell_skipped:
  "(cell_at row col \<noteq> [] \<and>
      (parseFloat (cell_at row col) = NaN \<or> (\<exists>q<0. parseFloat (cell_at row col) = Fin q))
     \<longrightarrow> process_subject ctx student row (col, info) st = ((col, info), st))
   \<and> (cell_at row col = [] \<longrightarrow>
        attendance (snd (process_subject ctx student row (col, info) st)) =
          findOneAndUpdate_upsert
            (summaryWrite ctx student (useBatchTotal info student) 0 (cellNumber row (col + 1)))
            (attendance st))"
proof (intro conjI impI)
  assume "cell_at row col \<noteq> [] \<and>
      (parseFloat (cell_at row col) = NaN \<or> (\<exists>q<0. parseFloat (cell_at row col) = Fin q))"
  then have "cellNumber row col = NaN \<or> (\<exists>q<0. cellNumber row col = Fin q)"
    by (simp add: cellNumber_def)
  then show "process_subject ctx student row (col, info) st = ((col, info), st)"
    using process_subject_skipped[of row "(col, info)" ctx student st] by simp
next
  assume "cell_at row col = []"
  then have "cellNumber row col = Fin 0"
    by (simp add: cellNumber_def)
  then show "attendance (snd (process_subject ctx student row (col, info) st)) =
          findOneAndUpdate_upsert
            (summaryWrite ctx student (useBatchTotal info student) 0 (cellNumber row (col + 1)))
            (attendance st)"
    using process_subject_written[of row "(col, info)" 0 ctx student st] by simp
qed

theorem invalid_attended_cell_skipped_witness:
  "cell_at [''1'', ''U1'', ''Student 1'', ''A'', ''AB'', ''''] 4 \<noteq> [] \<and>
   parseFloat (cell_at [''1'', ''U1'', ''Student 1'', ''A'', ''AB'', ''''] 4) = NaN \<and>
   process_subject ctxB studentU1 [''1'', ''U1'', ''Student 1'', ''A'', ''AB'', '''']
       (4, theorySE) (initial_state []) = ((4, theorySE), initial_state []) \<and>
   cell_at [''1'', ''U1'', ''Student 1'', ''A'', '''', ''''] 4 = [] \<and>
   attendance (snd (process_subject ctxB studentU1 [''1'', ''U1'', ''Student 1'', ''A'', '''', '''']
       (4, theorySE) (initial_state []))) =
     findOneAndUpdate_upsert
       (summaryWrite ctxB studentU1 (useBatchTotal theorySE studentU1) 0
          (cellNumber [''1'', ''U1'', ''Student 1'', ''A'', '''', ''''] 5))
       (attendance (initial_state []))"
proof -
  have a: "cell_at [''1'', ''U1'', ''Student 1'', ''A'', ''AB'', ''''] 4 \<noteq> []"
    by (simp add: cell_at_def)
  have b: "parseFloat (cell_at [''1'', ''U1'', ''Student 1'', ''A'', ''AB'', ''''] 4) = NaN"
    by code_simp
  have c: "cell_at [''1'', ''U1'', ''Student 1'', ''A'', '''', ''''] 4 = []"
    by (simp add: cell_at_def)
  from invalid_attended_cell_skipped[of "[''1'', ''U1'', ''Student 1'', ''A'', ''AB'', '''']" 4
      ctxB studentU1 theorySE "initial_state []"]
    invalid_attended_cell_skipped[of "[''1'', ''U1'', ''Student 1'', ''A'', '''', '''']" 4
      ctxB studentU1 theorySE "initial_state []"]
    a b c
  show ?thesis by simp
qed


section \<open>Idempotence of the upload\<close>

lemma queryMatches_key:
  "queryMatches w d \<longleftrightarrow> summaryKey d = (w_studentId w, w_subjectId w, w_type w, w_period w)"
  by (cases "att_period d"; cases "w_period w")
     (auto simp: queryMatches_def summaryKey_def storedPeriod_def)

lemma summaryKey_applySet:
  "queryMatches w d \<Longrightarrow> summaryKey (applySet w d) = summaryKey d"
  by (cases "w_period w")
     (auto simp: queryMatches_def summaryKey_def storedPeriod_def applySet_def periodField_def)

lemma summaryKey_insertedDoc:
  "summaryKey (insertedDoc w) = (w_studentId w, w_subjectId w, w_type w, w_period w)"
  by (cases "w_period w") (simp_all add: summaryKey_def insertedDoc_def storedPeriod_def periodField_def)

lemma upsert_keys:
  "list_ex (queryMatches w) s \<Longrightarrow>
     map summaryKey (findOneAndUpdate_upsert w s) = map summaryKey s"
  by (induction s) (auto simp: summaryKey_applySet)

lemma upsert_matches_own: "list_ex (queryMatches w) (findOneAndUpdate_upsert w s)"
proof (induction s)
  case Nil
  show ?case by (simp add: queryMatches_key summaryKey_insertedDoc)
next
  case (Cons d ds)
  then show ?case
    by (auto simp: queryMatches_key summaryKey_applySet)
qed

lemma upsert_keeps_match:
  "list_ex (queryMatches w') s \<Longrightarrow> list_ex (queryMatches w') (findOneAndUpdate_upsert w s)"
proof (induction s)
  case Nil
  then show ?case by simp
next
  case (Cons d ds)
  then show ?case
    by (auto simp: queryMatches_key summaryKey_applySet)
qed

lemma foldl_upsert_keeps_match:
  "list_ex (queryMatches w') s \<Longrightarrow>
     list_ex (queryMatches w') (foldl (\<lambda>s w. findOneAndUpdate_upsert w s) s ws)"
  by (induction ws arbitrary: s) (simp_all add: upsert_keeps_match)

lemma foldl_upsert_covers:
  "w \<in> set ws \<Longrightarrow> list_ex (queryMatches w) (foldl (\<lambda>s w. findOneAndUpdate_upsert w s) s ws)"
proof (induction ws arbitrary: s)
  case Nil
  then show ?case by simp
next
  case (Cons v vs)
  show ?case
  proof (cases "w = v")
    case True
    then show ?thesis
      using foldl_upsert_keeps_match[OF upsert_matches_own[of v s], of vs] by simp
  next
    case False
    with Cons.prems have "w \<in> set vs" by simp
    then show ?thesis using Cons.IH by simp
  qed
qed

lemma foldl_upsert_keys:
  "(\<And>w. w \<in> set ws \<Longrightarrow> list_ex (queryMatches w) s) \<Longrightarrow>
     map summaryKey (foldl (\<lambda>s w. findOneAndUpdate_upsert w s) s ws) = map summaryKey s"
proof (induction ws arbitrary: s)
  case Nil
  show ?case by simp
next
  case (Cons v vs)
  have "map summaryKey (foldl (\<lambda>s w. findOneAndUpdate_upsert w s) (findOneAndUpdate_upsert v s) vs)
        = map summaryKey (findOneAndUpdate_upsert v s)"
    by (rule Cons.IH) (simp add: Cons.prems upsert_keeps_match)
  also have "\<dots> = map summaryKey s"
    by (rule upsert_keys) (simp add: Cons.prems)
  finally show ?case by simp
qed

lemma process_subject_attendance:
  "attendance (snd (process_subject ctx student row entry st)) =
     (case subject_write ctx student row entry of
        None \<Rightarrow> attendance st
      | Some w \<Rightarrow> findOneAndUpdate_upsert w (attendance st))"
  by (simp add: process_subject_def subject_write_def Let_def split: jsnum.splits)

lemma process_subject_entry:
  "fst (process_subject ctx student row entry st) = fst (process_subject ctx student row entry st')"
  by (simp add: process_subject_def Let_def split: jsnum.splits)

lemma process_subjects_attendance:
  "attendance (snd (process_subjects ctx student row sm st)) =
     foldl (\<lambda>s w. findOneAndUpdate_upsert w s) (attendance st) (subjects_writes ctx student row sm)"
proof (induction sm arbitrary: st)
  case Nil
  show ?case by simp
next
  case (Cons entry entries)
  show ?case
    using Cons.IH[of "snd (process_subject ctx student row entry st)"]
    by (simp add: case_prod_unfold Let_def process_subject_attendance split: option.splits)
qed

lemma process_subjects_map:
  "fst (process_subjects ctx student row sm st) = fst (process_subjects ctx student row sm st')"
proof (induction sm arbitrary: st st')
  case Nil
  show ?case by simp
next
  case (Cons entry entries)
  show ?case
    using Cons.IH[of "snd (process_subject ctx student row entry st)"
        "snd (process_subject ctx student row entry st')"]
      process_subject_entry[of ctx student row entry st st']
    by (simp add: case_prod_unfold Let_def)
qed

lemma process_rows_attendance:
  "attendance (snd (process_rows ctx i rows sm st)) =
     foldl (\<lambda>s w. findOneAndUpdate_upsert w s) (attendance st) (rows_writes ctx rows sm)"
proof (induction rows arbitrary: i sm st)
  case Nil
  show ?case by simp
next
  case (Cons row rows)
  show ?case
  proof (cases "row = [] \<or> trim (cell_at row (uidCol ctx)) = []")
    case True
    then show ?thesis using Cons.IH by (auto simp: Let_def)
  next
    case False
    note live = this
    show ?thesis
    proof (cases "find (\<lambda>s. stu_studentId s = trim (cell_at row (uidCol ctx))) (students ctx)")
      case None
      with live show ?thesis using Cons.IH by (simp add: Let_def)
    next
      case (Some student)
      let ?st1 = "st\<lparr>studentsFound := studentsFound st + 1\<rparr>"
      have m: "fst (process_subjects ctx student row sm ?st1) =
          fst (process_subjects ctx student row sm (initial_state []))"
        by (rule process_subjects_map)
      have a: "attendance (snd (process_subjects ctx student row sm ?st1)) =
          foldl (\<lambda>s w. findOneAndUpdate_upsert w s) (attendance st) (subjects_writes ctx student row sm)"
        by (simp add: process_subjects_attendance)
      have "process_rows ctx i (row # rows) sm st =
          process_rows ctx (i + 1) rows (fst (process_subjects ctx student row sm ?st1))
            (snd (process_subjects ctx student row sm ?st1))"
        using live Some by (simp add: Let_def case_prod_unfold)
      moreover have "rows_writes ctx (row # rows) sm =
          subjects_writes ctx student row sm
          @ rows_writes ctx rows (fst (process_subjects ctx student row sm (initial_state [])))"
        using live Some by simp
      ultimately show ?thesis
        using Cons.IH[of "i + 1" "fst (process_subjects ctx student row sm ?st1)"
            "snd (process_subjects ctx student row sm ?st1)"]
        by (simp only: m a foldl_append)
    qed
  qed
qed

lemma upload_rows_attendance:
  "fst (upload_rows ctx h sheetData sm db) =
     foldl (\<lambda>s w. findOneAndUpdate_upsert w s) (fst db)
       (rows_writes ctx (drop (h + 1) sheetData) sm)"
  by (simp add: upload_rows_def Let_def case_prod_unfold process_rows_attendance initial_state_def)

text \<open>
  Claim C1. Summaries are keyed by student, subject, type and period. A write of a sheet
  with a period matches exactly the stored summaries of its student, subject and type
  with that period, and the document it inserts or updates carries that period; a write
  without a period matches the stored summaries of its student, subject and type whose
  period is \<^verbatim>\<open>null\<close> or missing. When the same sheet is uploaded a second time, the
  second upload adds no document to the collection: the collection has the same length
  and the same key at every position.
\<close>

theorem reupload_adds_no_rows:
  assumes "upload_rows ctx h sheetData sm (atts0, allocs0) = (atts1, allocs1, res1)"
    and "upload_rows ctx h sheetData sm (atts1, allocs1) = (atts2, allocs2, res2)"
  shows "length atts2 = length atts1 \<and> map summaryKey atts2 = map summaryKey atts1 \<and>
         (period ctx = None \<longrightarrow>
            queryMatches (summaryWrite ctx student info a p) d =
              (att_studentId d = stu_oid student \<and> att_subjectId d = subjectId info \<and>
               att_type d = stype info \<and> (att_period d = Null \<or> att_period d = Absent))) \<and>
         (\<forall>q. period ctx = Some q \<and> q \<noteq> [] \<longrightarrow>
            queryMatches (summaryWrite ctx student info a p) d =
              (att_studentId d = stu_oid student \<and> att_subjectId d = subjectId info \<and>
               att_type d = stype info \<and> att_period d = Period q) \<and>
            att_period (insertedDoc (summaryWrite ctx student info a p)) = Period q \<and>
            att_period (applySet (summaryWrite ctx student info a p) d) = Period q)"
proof -
  define ws where "ws = rows_writes ctx (drop (h + 1) sheetData) sm"
  have 1: "atts1 = foldl (\<lambda>s w. findOneAndUpdate_upsert w s) atts0 ws"
    using upload_rows_attendance[of ctx h sheetData sm "(atts0, allocs0)"] assms(1)
    by (simp add: ws_def)
  have 2: "atts2 = foldl (\<lambda>s w. findOneAndUpdate_upsert w s) atts1 ws"
    using upload_rows_attendance[of ctx h sheetData sm "(atts1, allocs1)"] assms(2)
    by (simp add: ws_def)
  have "\<And>w. w \<in> set ws \<Longrightarrow> list_ex (queryMatches w) atts1"
    unfolding 1 by (rule foldl_upsert_covers)
  then have keys: "map summaryKey atts2 = map summaryKey atts1"
    unfolding 2 by (rule foldl_upsert_keys)
  then have "length atts2 = length atts1"
    using map_eq_imp_length_eq by blast
  moreover have "period ctx = None \<longrightarrow>
            queryMatches (summaryWrite ctx student info a p) d =
              (att_studentId d = stu_oid student \<and> att_subjectId d = subjectId info \<and>
               att_type d = stype info \<and> (att_period d = Null \<or> att_period d = Absent))"
    by (simp add: queryMatches_def summaryWrite_def truthyPeriod_def)
  moreover have "\<forall>q. period ctx = Some q \<and> q \<noteq> [] \<longrightarrow>
            queryMatches (summaryWrite ctx student info a p) d =
              (att_studentId d = stu_oid student \<and> att_subjectId d = subjectId info \<and>
               att_type d = stype info \<and> att_period d = Period q) \<and>
            att_period (insertedDoc (summaryWrite ctx student info a p)) = Period q \<and>
            att_period (applySet (summaryWrite ctx student info a p) d) = Period q"
    by (simp add: queryMatches_def summaryWrite_def truthyPeriod_def insertedDoc_def
        applySet_def periodField_def)
  ultimately show ?thesis using keys by blast
qed

text \<open>
  Claim C1, at the two sheets of division B. The dated sheet uploaded twice into an
  empty collection leaves two summaries, both with the period of the sheet. A write of
  the undated sheet matches a stored summary without a period, a write of the dated
  sheet does not; so the dated sheet uploaded after the undated one adds two summaries
  of its own.
\<close>

theorem reupload_adds_no_rows_witness:
  "length (fst (upload_rows ctxDated 4 sheetDated [(4, labSE)]
             (fst (upload_rows ctxDated 4 sheetDated [(4, labSE)] ([], [allocationC])),
              fst (snd (upload_rows ctxDated 4 sheetDated [(4, labSE)] ([], [allocationC]))))))
     = length (fst (upload_rows ctxDated 4 sheetDated [(4, labSE)] ([], [allocationC])))
   \<and> map att_period (fst (upload_rows ctxDated 4 sheetDated [(4, labSE)] ([], [allocationC])))
       = [Period ''Aug-25 to Oct-25'', Period ''Aug-25 to Oct-25'']
   \<and> length (fst (upload_rows ctxB 4 sheetUndated [(4, labSE)]
             (fst (upload_rows ctxB 4 sheetUndated [(4, labSE)] ([], [allocationC])),
              fst (snd (upload_rows ctxB 4 sheetUndated [(4, labSE)] ([], [allocationC]))))))
     = length (fst (upload_rows ctxB 4 sheetUndated [(4, labSE)] ([], [allocationC])))
   \<and> period ctxB = None
   \<and> queryMatches (summaryWrite ctxB studentU2 theorySE 5 (Fin 0)) (summaryWith 2 50)
   \<and> period ctxDated = Some ''Aug-25 to Oct-25''
   \<and> \<not> queryMatches (summaryWrite ctxDated studentU2 theorySE 5 (Fin 0)) (summaryWith 2 50)
   \<and> length (fst (upload_rows ctxDated 4 sheetDated [(4, labSE)]
             (fst (upload_rows ctxB 4 sheetUndated [(4, labSE)] ([], [allocationC])),
              fst (snd (upload_rows ctxB 4 sheetUndated [(4, labSE)] ([], [allocationC])))))) = 4"
proof -
  let ?d1 = "upload_rows ctxDated 4 sheetDated [(4, labSE)] ([], [allocationC])"
  let ?d2 = "upload_rows ctxDated 4 sheetDated [(4, labSE)] (fst ?d1, fst (snd ?d1))"
  let ?n1 = "upload_rows ctxB 4 sheetUndated [(4, labSE)] ([], [allocationC])"
  let ?n2 = "upload_rows ctxB 4 sheetUndated [(4, labSE)] (fst ?n1, fst (snd ?n1))"
  have d1: "?d1 = (fst ?d1, fst (snd ?d1), snd (snd ?d1))" by simp
  have d2: "?d2 = (fst ?d2, fst (snd ?d2), snd (snd ?d2))" by simp
  have n1: "?n1 = (fst ?n1, fst (snd ?n1), snd (snd ?n1))" by simp
  have n2: "?n2 = (fst ?n2, fst (snd ?n2), snd (snd ?n2))" by simp
  have pd: "period ctxDated = Some ''Aug-25 to Oct-25''" and pn: "period ctxB = None"
    by (simp_all add: ctxDated_def ctxB_def)
  have per: "map att_period (fst ?d1) = [Period ''Aug-25 to Oct-25'', Period ''Aug-25 to Oct-25'']"
    by code_simp
  have four: "length (fst (upload_rows ctxDated 4 sheetDated [(4, labSE)]
      (fst ?n1, fst (snd ?n1)))) = 4"
    by code_simp
  have doc: "att_studentId (summaryWith 2 50) = stu_oid studentU2"
    "att_subjectId (summaryWith 2 50) = subjectId theorySE"
    "att_type (summaryWith 2 50) = stype theorySE" "att_period (summaryWith 2 50) = Null"
    by (simp_all add: summaryWith_def studentU2_def theorySE_def)
  from reupload_adds_no_rows[OF d1 d2, of studentU2 theorySE 5 "Fin 0" "summaryWith 2 50"]
    reupload_adds_no_rows[OF n1 n2, of studentU2 theorySE 5 "Fin 0" "summaryWith 2 50"]
  show ?thesis
    by (simp add: pd pn per four doc)
qed


text \<open>
  The second upload changes no value either: the collection after it is the collection
  before it. (The time stamp \<^verbatim>\<open>updatedAt\<close>, which every write renews, is not part of
  the model.)
\<close>

lemma queryMatches_writeKey: "queryMatches w d \<longleftrightarrow> summaryKey d = writeKey w"
  by (simp add: queryMatches_key writeKey_def)

lemma applySet_absorbs: "applySet w' (applySet w d) = applySet w' d"
  by (simp add: applySet_def)

lemma applySet_insertedDoc:
  "writeKey w = writeKey w' \<Longrightarrow> applySet w' (insertedDoc w) = insertedDoc w'"
  by (simp add: writeKey_def applySet_def insertedDoc_def)

lemma upsert_absorbs:
  "writeKey w = writeKey w' \<Longrightarrow>
     findOneAndUpdate_upsert w' (findOneAndUpdate_upsert w s) = findOneAndUpdate_upsert w' s"
proof (induction s)
  case Nil
  then show ?case
    by (simp add: queryMatches_writeKey summaryKey_insertedDoc applySet_insertedDoc
        writeKey_def[symmetric])
next
  case (Cons d ds)
  then show ?case
    by (simp add: queryMatches_writeKey summaryKey_applySet applySet_absorbs)
qed

lemma upsert_commutes:
  "writeKey v \<noteq> writeKey w \<Longrightarrow> list_ex (queryMatches v) s \<Longrightarrow>
     findOneAndUpdate_upsert v (findOneAndUpdate_upsert w s) =
     findOneAndUpdate_upsert w (findOneAndUpdate_upsert v s)"
proof (induction s)
  case Nil
  then show ?case by simp
next
  case (Cons d ds)
  show ?case
  proof (cases "queryMatches v d")
    case True
    with Cons.prems(1) show ?thesis
      by (auto simp: queryMatches_writeKey summaryKey_applySet)
  next
    case False
    with Cons.prems have "list_ex (queryMatches v) ds" by simp
    from Cons.IH[OF Cons.prems(1) this] False Cons.prems(1) show ?thesis
      by (auto simp: queryMatches_writeKey summaryKey_applySet)
  qed
qed

lemma foldl_upsert_after_write:
  assumes "\<And>v. v \<in> set vs \<Longrightarrow> list_ex (queryMatches v) s"
  shows "foldl (\<lambda>s w. findOneAndUpdate_upsert w s) (findOneAndUpdate_upsert w s) vs =
           (if \<exists>v \<in> set vs. writeKey v = writeKey w
            then foldl (\<lambda>s w. findOneAndUpdate_upsert w s) s vs
            else findOneAndUpdate_upsert w (foldl (\<lambda>s w. findOneAndUpdate_upsert w s) s vs))"
  using assms
proof (induction vs arbitrary: s)
  case Nil
  show ?case by simp
next
  case (Cons v vs)
  have covered: "\<And>v'. v' \<in> set vs \<Longrightarrow> list_ex (queryMatches v') (findOneAndUpdate_upsert v s)"
    by (simp add: Cons.prems upsert_keeps_match)
  show ?case
  proof (cases "writeKey v = writeKey w")
    case True
    then have "findOneAndUpdate_upsert v (findOneAndUpdate_upsert w s) = findOneAndUpdate_upsert v s"
      using upsert_absorbs[of w v s] by simp
    with True show ?thesis by simp
  next
    case False
    have "findOneAndUpdate_upsert v (findOneAndUpdate_upsert w s) =
        findOneAndUpdate_upsert w (findOneAndUpdate_upsert v s)"
      by (rule upsert_commutes[OF False]) (simp add: Cons.prems)
    with Cons.IH[OF covered] False show ?thesis by simp
  qed
qed

lemma foldl_upsert_idempotent:
  "foldl (\<lambda>s w. findOneAndUpdate_upsert w s) (foldl (\<lambda>s w. findOneAndUpdate_upsert w s) s ws) ws
     = foldl (\<lambda>s w. findOneAndUpdate_upsert w s) s ws"
proof (induction ws arbitrary: s rule: rev_induct)
  case Nil
  show ?case by simp
next
  case (snoc w vs)
  let ?F = "\<lambda>s. foldl (\<lambda>s w. findOneAndUpdate_upsert w s) s vs"
  have covered: "\<And>v. v \<in> set vs \<Longrightarrow> list_ex (queryMatches v) (?F s)"
    by (rule foldl_upsert_covers)
  have "?F (findOneAndUpdate_upsert w (?F s)) =
      (if \<exists>v \<in> set vs. writeKey v = writeKey w then ?F (?F s)
       else findOneAndUpdate_upsert w (?F (?F s)))"
    by (rule foldl_upsert_after_write[OF covered])
  then have "findOneAndUpdate_upsert w (?F (findOneAndUpdate_upsert w (?F s))) =
      findOneAndUpdate_upsert w (?F s)"
    using snoc.IH[of s] upsert_absorbs[of w w "?F s"] by (simp split: if_splits)
  then show ?case by simp
qed

lemma reupload_changes_nothing:
  assumes "upload_rows ctx h sheetData sm (atts0, allocs0) = (atts1, allocs1, res1)"
    and "upload_rows ctx h sheetData sm (atts1, allocs1) = (atts2, allocs2, res2)"
  shows "atts2 = atts1"
proof -
  define ws where "ws = rows_writes ctx (drop (h + 1) sheetData) sm"
  have 1: "atts1 = foldl (\<lambda>s w. findOneAndUpdate_upsert w s) atts0 ws"
    using upload_rows_attendance[of ctx h sheetData sm "(atts0, allocs0)"] assms(1)
    by (simp add: ws_def)
  have 2: "atts2 = foldl (\<lambda>s w. findOneAndUpdate_upsert w s) atts1 ws"
    using upload_rows_attendance[of ctx h sheetData sm "(atts1, allocs1)"] assms(2)
    by (simp add: ws_def)
  show ?thesis
    unfolding 2 1 by (rule foldl_upsert_idempotent)
qed

section \<open>The shared entry of the subject map\<close>

text \<open>
  Claim C2: the totals of an allocation are overwritten only when the sheet declares a
  total for its key, and are left untouched otherwise. At the sheet of division B the
  code does otherwise. The header declares no total for batch C and none for the subject
  as a whole, yet the allocation of batch C is overwritten: the total of batch A, stored
  into the shared entry when the first row was processed, is still there at the second
  row and is taken for the header total.
\<close>

theorem allocation_overwritten_without_declared_total:
  "batchInfo labSE = Some [(''A'', 10)] \<and> totalLectures labSE = None \<and>
   batchTotal labSE studentU2 = None \<and>
   fst (snd (upload_rows ctxB 0 [headerB, rowU1, rowU2] [(4, labSE)] ([], [allocationC]))) =
     [allocationC\<lparr>al_totalPlanned := 10, al_totalConducted := 10, al_students := [2]\<rparr>]"
  by code_simp

text \<open>
  Claim C3: the summary written for a student row does not depend on the rows
  processed before it. At the sheet of division B the code does otherwise. The summary
  written for student U2 depends on whether the row of U1 was processed before: 10
  conducted and 50 percent when it was, 5 conducted and 100 percent when it was not.
\<close>

theorem summary_depends_on_row_order:
  "filter (\<lambda>d. att_studentId d = 2)
     (fst (upload_rows ctxB 0 [headerB, rowU1, rowU2] [(4, labSE)] ([], [allocationC]))) =
     [\<lparr>att_studentId = 2, att_subjectId = 7, att_type = Practical,
       att_totalConducted = 10, att_totalAttended = 5, att_percentage = 50,
       att_period = Null, att_division = Some ''B'', att_batch = Some ''C'',
       att_recordedBy = 9\<rparr>] \<and>
   filter (\<lambda>d. att_studentId d = 2)
     (fst (upload_rows ctxB 0 [headerB, rowU2, rowU1] [(4, labSE)] ([], [allocationC]))) =
     [\<lparr>att_studentId = 2, att_subjectId = 7, att_type = Practical,
       att_totalConducted = 5, att_totalAttended = 5, att_percentage = 100,
       att_period = Null, att_division = Some ''B'', att_batch = Some ''C'',
       att_recordedBy = 9\<rparr>]"
  by code_simp

text \<open>
  The same happens with a header that lists all four batches, one of them with the total
  0: the student of batch D gets the total of the batch processed before, or the total
  of the division's letter when the row comes first.
\<close>

lemma stale_total_with_zero_batch:
  "map att_totalConducted
     (filter (\<lambda>d. att_studentId d = 4)
        (fst (upload_rows ctxA 0 [headerB, rowU3, rowU4] [(4, labZeroD)] ([], [])))) = [10] \<and>
   map att_totalConducted
     (filter (\<lambda>d. att_studentId d = 4)
        (fst (upload_rows ctxA 0 [headerB, rowU4, rowU3] [(4, labZeroD)] ([], [])))) = [11]"
  by code_simp

section \<open>Bands of the defaulter report\<close>













section \<open>Failures inside the defaulter check\<close>

lemma defaulters_loop_fails:
  assumes "\<exists>s \<in> set studs. attendance_find_fails db (stu_oid s)"
  shows "\<exists>e. defaulters_loop threshold al db studs acc = Inl e"
  using assms
proof (induction studs arbitrary: acc)
  case Nil
  then show ?case by simp
next
  case (Cons s rest)
  show ?case
  proof (cases "attendance_find_fails db (stu_oid s)")
    case True
    then show ?thesis by (simp add: Attendance_find_def)
  next
    case False
    with Cons.prems have "\<exists>s \<in> set rest. attendance_find_fails db (stu_oid s)" by simp
    from Cons.IH[OF this] show ?thesis
      using False by (simp add: Attendance_find_def Let_def)
  qed
qed

text \<open>
  Claim C10 as stated fails at its second half. For a teacher the route first runs its
  own \<^verbatim>\<open>Allocation.find\<close>, outside \<^verbatim>\<open>checkDefaulters\<close>; when that query is rejected
  the route's \<^verbatim>\<open>catch\<close> block answers with status 500 and not with an empty list,
  whether or not the queries of \<^verbatim>\<open>checkDefaulters\<close> would have failed too.
\<close>

theorem teacher_allocation_failure_gives_500:
  "allocation_find_fails dbAllocationDown \<and>
   (\<exists>s \<in> set (db_students dbAllocationDown). attendance_find_fails dbAllocationDown (stu_oid s)) \<and>
   checkDefaulters 75 (Some [7]) dbAllocationDown = [] \<and>
   getDefaulters Teacher 3 75 dbAllocationDown = ServerError \<and>
   getDefaulters Teacher 3 75 dbAllocationDown \<noteq> Json [] \<and>
   getDefaulters Teacher 3 75 (dbAllocationDown\<lparr>attendance_find_fails := (\<lambda>sid. False)\<rparr>)
     = ServerError"
  by (simp add: getDefaulters_def dbAllocationDown_def dbAllocated_def dbRejecting_def
      checkDefaulters_def checkDefaulters_try_def Student_find_def Attendance_find_def
      studentU1_def studentU2_def Let_def)

text \<open>
  Claim C10, amended. \<^verbatim>\<open>checkDefaulters\<close> returns a list for every threshold, subject
  restriction and database, and the empty list when one of its own queries is rejected.
  The route \<^verbatim>\<open>GET /defaulters\<close> then answers with the empty list, except for a teacher
  whose allocation query, which the route runs itself before the check, is rejected:
  there it answers with status 500. Whatever the other queries do, status 500 is the
  answer exactly in that case.
\<close>

theorem checkDefaulters_never_throws:
  assumes "student_find_fails db \<or> (\<exists>s \<in> set (db_students db). attendance_find_fails db (stu_oid s))"
  shows "checkDefaulters threshold allocatedSubjectIds db = [] \<and>
         getDefaulters userRole userId threshold db =
           (if userRole = Teacher \<and> allocation_find_fails db then ServerError else Json []) \<and>
         (getDefaulters userRole userId threshold db' = ServerError \<longleftrightarrow>
            userRole = Teacher \<and> allocation_find_fails db')"
proof -
  have c: "checkDefaulters t al db = []" for t al
  proof (cases "student_find_fails db")
    case True
    then show ?thesis
      by (simp add: checkDefaulters_def checkDefaulters_try_def Student_find_def)
  next
    case False
    with assms have "\<exists>s \<in> set (db_students db). attendance_find_fails db (stu_oid s)"
      by simp
    from defaulters_loop_fails[OF this, of t al "[]"] False show ?thesis
      by (auto simp: checkDefaulters_def checkDefaulters_try_def Student_find_def)
  qed
  have g: "getDefaulters userRole userId threshold db =
      (if userRole = Teacher \<and> allocation_find_fails db then ServerError else Json [])"
    by (simp add: getDefaulters_def c)
  have e: "getDefaulters userRole userId threshold db' = ServerError \<longleftrightarrow>
      userRole = Teacher \<and> allocation_find_fails db'"
    by (simp add: getDefaulters_def)
  from c g e show ?thesis
    by simp
qed

text \<open>
  Claim C10, at the database whose attendance query is rejected for student U2: an
  administrator and a teacher with an allocated subject receive the empty list, the
  teacher whose allocation query is rejected receives status 500, and with no query
  rejected the check reports a defaulter.
\<close>

theorem checkDefaulters_never_throws_witness:
  "(\<exists>s \<in> set (db_students dbAllocated). attendance_find_fails dbAllocated (stu_oid s)) \<and>
   checkDefaulters 75 (Some [7]) dbAllocated = [] \<and>
   getDefaulters Admin 3 75 dbAllocated = Json [] \<and>
   getDefaulters Teacher 3 75 dbAllocated = Json [] \<and>
   (\<exists>s \<in> set (db_students dbAllocationDown). attendance_find_fails dbAllocationDown (stu_oid s)) \<and>
   getDefaulters Admin 3 75 dbAllocationDown = Json [] \<and>
   getDefaulters Teacher 3 75 dbAllocationDown = ServerError \<and>
   checkDefaulters 75 (Some [7]) (dbAllocated\<lparr>attendance_find_fails := (\<lambda>sid. False)\<rparr>) \<noteq> [] \<and>
   getDefaulters Teacher 3 75 (dbAllocated\<lparr>attendance_find_fails := (\<lambda>sid. False)\<rparr>)
     \<noteq> ServerError"
proof -
  have b: "\<exists>s \<in> set (db_students dbAllocated). attendance_find_fails dbAllocated (stu_oid s)"
    by (simp add: dbAllocated_def dbRejecting_def studentU2_def)
  have b': "\<exists>s \<in> set (db_students dbAllocationDown).
      attendance_find_fails dbAllocationDown (stu_oid s)"
    by (simp add: dbAllocationDown_def dbAllocated_def dbRejecting_def studentU2_def)
  from b have f: "student_find_fails dbAllocated \<or>
      (\<exists>s \<in> set (db_students dbAllocated). attendance_find_fails dbAllocated (stu_oid s))" ..
  from b' have f': "student_find_fails dbAllocationDown \<or>
      (\<exists>s \<in> set (db_students dbAllocationDown).
         attendance_find_fails dbAllocationDown (stu_oid s))" ..
  have g: "checkDefaulters 75 (Some [7])
      (dbAllocated\<lparr>attendance_find_fails := (\<lambda>sid. False)\<rparr>) \<noteq> []"
    by code_simp
  have h: "\<not> allocation_find_fails dbAllocated" "allocation_find_fails dbAllocationDown"
    "\<not> allocation_find_fails (dbAllocated\<lparr>attendance_find_fails := (\<lambda>sid. False)\<rparr>)"
    by (simp_all add: dbAllocationDown_def dbAllocated_def dbRejecting_def)
  from checkDefaulters_never_throws[OF f, of 75 "Some [7]" Admin 3
      "dbAllocated\<lparr>attendance_find_fails := (\<lambda>sid. False)\<rparr>"]
    checkDefaulters_never_throws[OF f, of 75 "Some [7]" Teacher 3
      "dbAllocated\<lparr>attendance_find_fails := (\<lambda>sid. False)\<rparr>"]
    checkDefaulters_never_throws[OF f', of 75 "Some [7]" Admin 3 dbAllocationDown]
    checkDefaulters_never_throws[OF f', of 75 "Some [7]" Teacher 3 dbAllocationDown]
    b b' g h
  show ?thesis
    by simp
qed

section \<open>The uploaded file on the exits of the handler\<close>

lemma try_unlink_removes: "path \<notin> set (try_unlink path files)"
  by (simp add: try_unlink_def unlinkSync_def)

lemma try_unlink_idem: "path \<notin> set files \<Longrightarrow> try_unlink path files = files"
  by (simp add: try_unlink_def unlinkSync_def)

lemma processDivisionSheet_exit_removes:
  "file_path_arg \<notin> set (snd (processDivisionSheet_exit ex file_path_arg files))"
  by (simp add: processDivisionSheet_exit_def unlinkSync_def try_unlink_removes)

lemma accepted_division_file_removed:
  assumes "\<not> divisionRejected (req_division req)" and "req_file req = Some file"
  shows "file_path file \<notin> set (snd (uploadDivisionSheet req read_fails ex files))"
proof (cases "processDivisionSheet_exit ex (file_path file) files")
  case (Pair r files')
  then have "file_path file \<notin> set files'"
    using processDivisionSheet_exit_removes[of "file_path file" ex files] by simp
  with Pair assms show ?thesis
    by (cases r) (simp_all add: uploadDivisionSheet_def unlinkSync_def try_unlink_removes)
qed

text \<open>
  Claim C7: on every exit of the upload handler the received file is deleted. At a
  request with the division E and a file received at \<^verbatim>\<open>uploads/f1\<close> the code does
  otherwise: the handler answers 400 at the division check and the file is still there,
  whatever the file contains. On the other exits the file is removed, as the lemma above
  shows.
\<close>

theorem rejected_division_leaves_file:
  "uploadDivisionSheet
     \<lparr> req_division = Some ''E'',
       req_file = Some \<lparr>file_path = ''uploads/f1'', file_originalname = ''sheet.xlsx''\<rparr> \<rparr>
     read_fails ex [''uploads/f1''] = (Status 400, [''uploads/f1''])"
  by (simp add: uploadDivisionSheet_def divisionRejected_def toUpperCase_def toUpperChar_def)

section \<open>Single flight of the allocation sync\<close>

lemma sync_invariant:
  "running_bodies (foldl sync_step w events) \<le> 1 \<and>
   (isRunning (foldl sync_step w events) \<longleftrightarrow> running_bodies (foldl sync_step w events) = 1)"
  if "running_bodies w \<le> 1 \<and> (isRunning w \<longleftrightarrow> running_bodies w = 1)"
  using that
proof (induction events arbitrary: w)
  case Nil
  then show ?case by simp
next
  case (Cons e events)
  have "running_bodies (sync_step w e) \<le> 1 \<and>
      (isRunning (sync_step w e) \<longleftrightarrow> running_bodies (sync_step w e) = 1)"
    using Cons.prems by (cases e) auto
  from Cons.IH[OF this] show ?case by simp
qed

text \<open>
  Claim C9. Whatever the order of invocations, resumptions and completions, at most
  one body of the sync is running, and the flag is set exactly while one is. An
  invocation that finds the flag set changes nothing: it does no work and leaves
  nothing behind that would start a body later.
\<close>

theorem sync_single_flight:
  "running_bodies (sync_run events) \<le> 1 \<and>
   (isRunning (sync_run events) \<longleftrightarrow> running_bodies (sync_run events) = 1) \<and>
   (isRunning (sync_run events) \<longrightarrow>
      sync_run (events @ [Invoke]) = sync_run events \<and>
      running_bodies (sync_run (events @ [Invoke, Finish])) = 0)"
proof -
  have i: "running_bodies (sync_run events) \<le> 1 \<and>
      (isRunning (sync_run events) \<longleftrightarrow> running_bodies (sync_run events) = 1)"
    unfolding sync_run_def by (rule sync_invariant) (simp add: sync_idle_def)
  then show ?thesis
    by (auto simp: sync_run_def)
qed

theorem sync_single_flight_witness:
  "isRunning (sync_run [Invoke, Resume]) \<and>
   sync_run ([Invoke, Resume] @ [Invoke]) = sync_run [Invoke, Resume] \<and>
   running_bodies (sync_run ([Invoke, Resume] @ [Invoke, Finish])) = 0 \<and>
   running_bodies (sync_run [Invoke, Resume]) = 1"
proof -
  have r: "isRunning (sync_run [Invoke, Resume])"
    by (simp add: sync_run_def sync_idle_def)
  from sync_single_flight[of "[Invoke, Resume]"] r show ?thesis
    by simp
qed

end
